theory Spec2Isabelle
  imports Main
begin

section \<open>The ReAct agent of agent.py\<close>

text \<open>
  A shallow embedding of \<^verbatim>\<open>src/language_models/agent/agent.py\<close>: the token
  estimate, the trimming of the conversation, the parsing policy, the loop of
  \<^verbatim>\<open>Agent.invoke\<close> with its fallback answer, and \<^verbatim>\<open>Agent.create\<close>.
  Exceptions are values, the mutable chat is passed explicitly, and the collaborators
  (model completion, output parser, tools) are functions over a hidden state of an
  arbitrary type \<open>'w\<close>, so that they may answer differently at every call.
\<close>

subsection \<open>Exceptions and Python values\<close>

text \<open>
  An exception is its class together with the text that \<^verbatim>\<open>str(error)\<close> gives.
  \<open>ValueError\<close> and \<open>TypeError\<close> stand for every instance of these classes,
  subclasses included, as an \<^verbatim>\<open>except\<close> clause sees them; \<open>OtherError\<close> carries
  the name of any class outside the ones listed.
\<close>

datatype error =
    ValueError string
  | TypeError string
  | KeyError string
  | IndexError string
  | AttributeError string
  | OtherError string string

fun error_str :: "error \<Rightarrow> string" where
  "error_str (ValueError m) = m"
| "error_str (TypeError m) = m"
| "error_str (KeyError m) = m"
| "error_str (IndexError m) = m"
| "error_str (AttributeError m) = m"
| "error_str (OtherError c m) = m"

text \<open>
  The values of type \<^verbatim>\<open>Any\<close> that the agent handles: final answers, tool inputs and
  tool responses. \<open>PyModel\<close> is an instance of a pydantic model, with the name of its
  class and its fields. (Floats, booleans and dates are left out: answers that hold them
  are outside the model.)
\<close>

datatype pyval =
    PyNone
  | PyStr string
  | PyInt int
  | PyList "pyval list"
  | PyDict "(string \<times> pyval) list"
  | PyModel string "(string \<times> pyval) list"

subsection \<open>Messages and the token estimate\<close>

datatype ChatMessageRole = SYSTEM | USER | ASSISTANT

record ChatMessage =
  role :: ChatMessageRole
  content :: string

text \<open>
  Modelled from the spec: the enumeration \<^verbatim>\<open>ChatMessageRole\<close> and the class
  \<^verbatim>\<open>ChatMessage\<close> are declared in \<^verbatim>\<open>models/llm.py\<close>, which is not among the
  sources. The spec gives a message the fields role and content and names the roles
  system, user and assistant; \<open>model_dump\<close> lists the fields in that order.
\<close>

fun role_value :: "ChatMessageRole \<Rightarrow> string" where
  "role_value SYSTEM = ''system''"
| "role_value USER = ''user''"
| "role_value ASSISTANT = ''assistant''"

definition model_dump :: "ChatMessage \<Rightarrow> (string \<times> string) list" where
  "model_dump m = [(''role'', role_value (role m)), (''content'', content m)]"

definition MODEL_TOKEN_LIMIT :: "(string \<times> int) list" where
  "MODEL_TOKEN_LIMIT =
     [(''gpt-4'', 8192),
      (''gpt-4-32k'', 32768),
      (''gpt-35-turbo'', 4096),
      (''gpt-35-turbo-16k'', 16385)]"

text \<open>
  \<^verbatim>\<open>num_tokens_from_messages\<close>. The tokenizer of tiktoken is the parameter \<open>enc\<close>,
  which gives the token ids of a text (texts on which tiktoken raises, those with special
  tokens, are outside the model). The inner loop runs over the fields of one message,
  the outer one over the messages.
\<close>

fun tokens_of_fields :: "(string \<Rightarrow> nat list) \<Rightarrow> (string \<times> string) list \<Rightarrow> int \<Rightarrow> int" where
  "tokens_of_fields enc [] n = n"
| "tokens_of_fields enc ((k, v) # kvs) n =
     tokens_of_fields enc kvs
       (let n1 = n + int (length (enc v)) in if k = ''name'' then n1 + (-1) else n1)"

fun tokens_of_messages :: "(string \<Rightarrow> nat list) \<Rightarrow> ChatMessage list \<Rightarrow> int \<Rightarrow> int" where
  "tokens_of_messages enc [] n = n"
| "tokens_of_messages enc (m # ms) n =
     tokens_of_messages enc ms (tokens_of_fields enc (model_dump m) (n + 4))"

definition num_tokens_from_messages :: "(string \<Rightarrow> nat list) \<Rightarrow> ChatMessage list \<Rightarrow> int" where
  "num_tokens_from_messages enc ms = tokens_of_messages enc ms 0 + 2"

subsection \<open>The language model and trimming\<close>

text \<open>
  Modelled from the spec: \<^verbatim>\<open>OpenAILanguageModel\<close> is declared in
  \<^verbatim>\<open>models/llm.py\<close>, which is not among the sources. The agent reads its model
  identifier and its maximum of output tokens and calls \<^verbatim>\<open>get_completion\<close>, a black
  box from the message log to a text, which may raise.
\<close>

record 'w OpenAILanguageModel =
  model :: string
  max_tokens :: int
  get_completion :: "ChatMessage list \<Rightarrow> 'w \<Rightarrow> (error + string) \<times> 'w"

text \<open>
  \<^verbatim>\<open>del xs[i]\<close> for an index \<open>i \<ge> 0\<close>: Python raises IndexError when there is no
  such element.
\<close>

definition py_del :: "'a list \<Rightarrow> nat \<Rightarrow> error + 'a list" where
  "py_del xs i =
     (if i < length xs then Inr (take i xs @ drop (Suc i) xs)
      else Inl (IndexError ''list assignment index out of range''))"

text \<open>
  \<^verbatim>\<open>Agent._trim_conversation\<close>. The result is the exception that left the loop, if
  any, and the message log as the loop left it: the log is mutated in place, so the
  deletions made before an exception stay. The limit is looked up at every test of the
  loop condition; an unknown model identifier raises KeyError there.
\<close>

function trim_conversation ::
  "(string \<Rightarrow> nat list) \<Rightarrow> 'w OpenAILanguageModel \<Rightarrow> ChatMessage list
     \<Rightarrow> error option \<times> ChatMessage list" where
  "trim_conversation enc l ms =
     (case map_of MODEL_TOKEN_LIMIT (model l) of
        None \<Rightarrow> (Some (KeyError (model l)), ms)
      | Some lim \<Rightarrow>
          if num_tokens_from_messages enc ms + max_tokens l \<ge> lim
          then (case py_del ms 1 of
                  Inl e \<Rightarrow> (Some e, ms)
                | Inr ms' \<Rightarrow> trim_conversation enc l ms')
          else (None, ms))"
  by pat_completeness auto
termination
  by (relation "measure (\<lambda>(enc, l, ms). length ms)")
     (auto simp: py_del_def split: if_splits)


subsection \<open>Reasoning steps, parsed outputs, tools\<close>

text \<open>
  Modelled from the spec: \<^verbatim>\<open>ReasoningStep\<close>, \<^verbatim>\<open>ReasoningStepName\<close>,
  \<^verbatim>\<open>ReasoningStepTool\<close> and \<^verbatim>\<open>Chat\<close> are declared in \<^verbatim>\<open>agent/chat.py\<close>,
  which is not among the sources. A reasoning step is a name with a content, the
  content being a text or, for a tool use, the tool name, its input and its response.
  The chat owns the message log, the chain of thought and the step summaries.
\<close>

datatype ReasoningStepName = PROMPT | THOUGHT | TOOL | FINAL_ANSWER

datatype ReasoningStepTool = ReasoningStepTool string pyval pyval

datatype ReasoningStepContent = Text string | ToolContent ReasoningStepTool

datatype ReasoningStep =
  ReasoningStep (step_name: ReasoningStepName) (step_content: ReasoningStepContent)

record Chat =
  messages :: "ChatMessage list"
  chain_of_thought :: "ReasoningStep list"
  steps :: "string list"

text \<open>
  Modelled from the spec: \<^verbatim>\<open>LLMToolUse\<close>, \<^verbatim>\<open>LLMFinalAnswer\<close>,
  \<^verbatim>\<open>OutputType\<close> and \<^verbatim>\<open>AgentOutputParser\<close> are declared in
  \<^verbatim>\<open>agent/output_parser.py\<close>, which is not among the sources. A parsed output is a
  tool use (thought, tool, tool input) or a final answer (thought, final answer). Of the
  output types the agent names six; \<open>OtherType\<close> stands for every other member.
  The parser carries its output type, the output schema, the object schema that the
  fallback reads for structured outputs, and \<^verbatim>\<open>parse\<close>, which may raise.
\<close>

datatype LLMOutput =
    LLMToolUse string string pyval
  | LLMFinalAnswer string pyval

fun thought :: "LLMOutput \<Rightarrow> string" where
  "thought (LLMToolUse th t inp) = th"
| "thought (LLMFinalAnswer th fa) = th"

datatype OutputType =
  STRUCT | ARRAY_STRUCT | OBJECT | ARRAY_OBJECT | DATE | TIMESTAMP | OtherType string

text \<open>
  A schema is a pydantic model class or a string. Of a class the agent reads
  \<^verbatim>\<open>__name__\<close>, the items of \<^verbatim>\<open>__annotations__\<close> and the keys of
  \<^verbatim>\<open>model_json_schema()["properties"]\<close>. An annotation is a type object or, in a
  module that postpones the evaluation of annotations, the text of the annotation.
\<close>

datatype annotation = EvaluatedType string | PostponedType string

record BaseModelClass =
  class_name :: string
  annotations :: "(string \<times> annotation) list"
  properties :: "string list"

datatype schema = SchemaClass BaseModelClass | SchemaStr string

record 'w AgentOutputParser =
  output_type :: OutputType
  output_schema :: "schema option"
  object_schema :: "schema option"
  parse :: "string \<Rightarrow> 'w \<Rightarrow> (error + LLMOutput) \<times> 'w"

text \<open>
  Modelled from the spec: \<^verbatim>\<open>Tool\<close> is declared in \<^verbatim>\<open>tools/tool.py\<close>, which is
  not among the sources. A tool has a name and can be invoked on an input; it may raise.
\<close>

record 'w Tool =
  tool_name :: string
  tool_invoke :: "pyval \<Rightarrow> 'w \<Rightarrow> (error + pyval) \<times> 'w"

datatype PromptingStrategy = SINGLE_COMPLETION | CHAIN_OF_THOUGHT

text \<open>
  \<^verbatim>\<open>AgentOutput\<close>. The class is a pydantic model: an output is made by
  \<open>new_AgentOutput\<close> below, which validates the final answer, and in no other way.
\<close>

datatype AgentOutput =
  AgentOutput (output_prompt: string) (final_answer: pyval)
    (output_chain_of_thought: "ReasoningStep list")

text \<open>The tools are a Python dict: an association list in insertion order.\<close>

record 'w Agent =
  llm :: "'w OpenAILanguageModel"
  tools :: "(string \<times> 'w Tool) list option"
  prompt :: string
  prompt_variables :: "string list"
  output_parser :: "'w AgentOutputParser"
  chat :: Chat
  prompting_strategy :: PromptingStrategy
  iterations :: int

subsection \<open>What the agent takes from outside\<close>

text \<open>
  The library functions the agent calls: the tokenizer, Python's \<^verbatim>\<open>str\<close> on the
  values it formats, \<^verbatim>\<open>str.format\<close> of the prompt template with keyword
  arguments, which may raise, and what pydantic's validation makes of a final answer that
  is of none of the types of \<^verbatim>\<open>AgentOutput.final_answer\<close> as it stands: a
  converted value, or a ValidationError.

  Modelled from the spec: \<^verbatim>\<open>Chat.update\<close> is declared in \<^verbatim>\<open>agent/chat.py\<close>,
  which is not among the sources. By the spec it rebuilds the user turn from the prompt and
  the accumulated step summaries: \<open>Chat_update\<close> reads the prompt and the summaries and
  gives the new message log; it touches neither the summaries nor the chain of thought.
\<close>

record environment =
  encode :: "string \<Rightarrow> nat list"
  py_str :: "pyval \<Rightarrow> string"
  py_format :: "string \<Rightarrow> (string \<rightharpoonup> pyval) \<Rightarrow> error + string"
  Chat_update :: "string \<Rightarrow> string list \<Rightarrow> ChatMessage list \<Rightarrow> ChatMessage list"
  lax_validate :: "pyval \<Rightarrow> error + pyval"

text \<open>
  The construction of an \<^verbatim>\<open>AgentOutput\<close>. The field \<^verbatim>\<open>final_answer\<close> is
  declared as the union of \<^verbatim>\<open>str\<close>, \<^verbatim>\<open>int\<close>, \<^verbatim>\<open>float\<close>,
  \<^verbatim>\<open>dict[str, Any]\<close>, \<^verbatim>\<open>BaseModel\<close>, the lists of each of these, and
  \<^verbatim>\<open>None\<close>. A value that is of one of these types as it stands is taken
  unchanged; for any other value (a list of \<^verbatim>\<open>None\<close>, a mixed or a nested list)
  the validation converts it or raises. The prompt and the chain of thought are always of
  their declared types.
\<close>

datatype pytype = NoneType | StrType | IntType | ListType | DictType | ModelType

fun py_type :: "pyval \<Rightarrow> pytype" where
  "py_type PyNone = NoneType"
| "py_type (PyStr x) = StrType"
| "py_type (PyInt i) = IntType"
| "py_type (PyList xs) = ListType"
| "py_type (PyDict d) = DictType"
| "py_type (PyModel c d) = ModelType"

fun strict_final_answer :: "pyval \<Rightarrow> bool" where
  "strict_final_answer (PyList xs) =
     (list_all (\<lambda>x. py_type x = StrType) xs \<or> list_all (\<lambda>x. py_type x = IntType) xs \<or>
      list_all (\<lambda>x. py_type x = DictType) xs \<or> list_all (\<lambda>x. py_type x = ModelType) xs)"
| "strict_final_answer v = True"

definition new_AgentOutput ::
  "environment \<Rightarrow> string \<Rightarrow> pyval \<Rightarrow> ReasoningStep list \<Rightarrow> error + AgentOutput" where
  "new_AgentOutput env p fa cot =
     (if strict_final_answer fa then Inr (AgentOutput p fa cot)
      else (case lax_validate env fa of
              Inl e \<Rightarrow> Inl e
            | Inr fa' \<Rightarrow> Inr (AgentOutput p fa' cot)))"

text \<open>\<^verbatim>\<open>sep.join(xs)\<close>\<close>

fun join :: "string \<Rightarrow> string list \<Rightarrow> string" where
  "join sep [] = []"
| "join sep [x] = x"
| "join sep (x # y # ys) = x @ sep @ join sep (y # ys)"

text \<open>
  \<^verbatim>\<open>d[k] = v\<close> on a dict: an existing key keeps its place and takes the new value, a
  new key goes to the end. A dict comprehension stores its items in turn.
\<close>

fun dict_set :: "('k \<times> 'v) list \<Rightarrow> 'k \<Rightarrow> 'v \<Rightarrow> ('k \<times> 'v) list" where
  "dict_set [] k v = [(k, v)]"
| "dict_set ((k', v') # d) k v =
     (if k' = k then (k, v) # d else (k', v') # dict_set d k v)"

definition dict_comp :: "('a \<Rightarrow> 'k \<times> 'v) \<Rightarrow> 'a list \<Rightarrow> ('k \<times> 'v) list" where
  "dict_comp f xs = foldl (\<lambda>d x. dict_set d (fst (f x)) (snd (f x))) [] xs"

subsection \<open>The running state\<close>

text \<open>
  While \<^verbatim>\<open>invoke\<close> runs, the chat of the agent is mutated; the rest of the agent is
  only read. The state of a run is the chat, the hidden state of the collaborators, and a
  log of the calls made to the model and to the tools. The log is not in the source: it is
  kept so that the number and the arguments of the calls can be stated.
\<close>

datatype event = ModelCall "ChatMessage list" | ToolCall string pyval

record 'w run = Chat +
  world :: 'w
  calls :: "event list"

text \<open>
  The observation of a turn is \<^verbatim>\<open>None\<close>, the exception caught from the parser, or a
  text; \<open>obs_str\<close> is what the f-string \<^verbatim>\<open>f"Observation: {observation}"\<close> prints
  for it.
\<close>

datatype observation = ObsNone | ObsError error | ObsStr string

fun obs_str :: "observation \<Rightarrow> string" where
  "obs_str ObsNone = ''None''"
| "obs_str (ObsError e) = error_str e"
| "obs_str (ObsStr s) = s"

text \<open>
  \<^verbatim>\<open>Agent._parse_output\<close>: the pair of the parsed output and the observation, or the
  exception that is not caught.
\<close>

definition parse_output ::
  "'w Agent \<Rightarrow> string \<Rightarrow> 'w \<Rightarrow> (error + LLMOutput option \<times> observation) \<times> 'w" where
  "parse_output a raw w =
     (case parse (output_parser a) raw w of
        (Inr out, w') \<Rightarrow> (Inr (Some out, ObsNone), w')
      | (Inl (ValueError m), w') \<Rightarrow> (Inr (None, ObsError (ValueError m)), w')
      | (Inl (TypeError m), w') \<Rightarrow> (Inr (None, ObsError (TypeError m)), w')
      | (Inl e, w') \<Rightarrow> (Inl e, w'))"

subsection \<open>One turn of the loop\<close>

text \<open>
  How a turn ends: the loop goes on, \<^verbatim>\<open>invoke\<close> returns an output, or an exception
  leaves \<^verbatim>\<open>invoke\<close>.
\<close>

datatype flow = Continue | Return AgentOutput | Raise error

text \<open>
  The dispatch of a tool use (the branch \<^verbatim>\<open>if self.tools is not None\<close>), from the
  observation so far to the new one. A registered tool is invoked, which may raise; an
  unknown name gives the notice with the registered names.
\<close>

definition use_tool ::
  "environment \<Rightarrow> 'w Agent \<Rightarrow> string \<Rightarrow> pyval \<Rightarrow> observation \<Rightarrow> 'w run
     \<Rightarrow> (error + observation) \<times> 'w run" where
  "use_tool env a t inp obs s =
     (case tools a of
        None \<Rightarrow> (Inr obs, s)
      | Some ts \<Rightarrow>
          (case map_of ts t of
             Some tool \<Rightarrow>
               (case tool_invoke tool inp (world s) of
                  (Inl e, w') \<Rightarrow> (Inl e, s\<lparr>world := w', calls := calls s @ [ToolCall t inp]\<rparr>)
                | (Inr tool_response, w') \<Rightarrow>
                    (Inr (ObsStr (''Tool Response:\<newline>'' @ py_str env tool_response)),
                     s\<lparr>chain_of_thought := chain_of_thought s @
                          [ReasoningStep TOOL (ToolContent (ReasoningStepTool t inp tool_response))],
                       steps := steps s @
                          [''Tool: '' @ tool_name tool, ''Tool Input: '' @ py_str env inp],
                       world := w',
                       calls := calls s @ [ToolCall t inp]\<rparr>))
           | None \<Rightarrow>
               (Inr (ObsStr (t @ '' tool doesn't exist. Try one of these tools: '' @
                             join '', '' (map fst ts))), s)))"

text \<open>The end of a turn: the observation summary, then \<^verbatim>\<open>self.chat.update(prompt)\<close>.\<close>

definition observe :: "environment \<Rightarrow> string \<Rightarrow> observation \<Rightarrow> 'w run \<Rightarrow> 'w run" where
  "observe env p obs s =
     (let s1 = s\<lparr>steps := steps s @ [''Observation: '' @ obs_str obs]\<rparr>
      in s1\<lparr>messages := Chat_update env p (steps s1) (messages s1)\<rparr>)"

text \<open>The turn after \<^verbatim>\<open>_parse_output\<close> has returned the output and the observation.\<close>

definition after_parse ::
  "environment \<Rightarrow> 'w Agent \<Rightarrow> string \<Rightarrow> LLMOutput option \<Rightarrow> observation \<Rightarrow> 'w run
     \<Rightarrow> flow \<times> 'w run" where
  "after_parse env a p out obs s =
     (case out of
        None \<Rightarrow> (Continue, observe env p obs s)
      | Some ou \<Rightarrow>
          (let s1 = s\<lparr>chain_of_thought := chain_of_thought s @
                         [ReasoningStep THOUGHT (Text (thought ou))],
                       steps := steps s @ [''Thought: '' @ thought ou]\<rparr>
           in case ou of
                LLMFinalAnswer th fa \<Rightarrow>
                  (let s2 = s1\<lparr>messages := messages s1 @
                                   [\<lparr>role = ASSISTANT, content = py_str env fa\<rparr>],
                                chain_of_thought := chain_of_thought s1 @
                                   [ReasoningStep FINAL_ANSWER (Text (py_str env fa))]\<rparr>
                   in case new_AgentOutput env p fa (chain_of_thought s2) of
                        Inl e \<Rightarrow> (Raise e, s2)
                      | Inr out \<Rightarrow> (Return out, s2))
              | LLMToolUse th t inp \<Rightarrow>
                  (case use_tool env a t inp obs s1 of
                     (Inl e, s2) \<Rightarrow> (Raise e, s2)
                   | (Inr obs', s2) \<Rightarrow> (Continue, observe env p obs' s2))))"

text \<open>The body of the \<^verbatim>\<open>while\<close> loop: trim, complete, parse, act.\<close>

definition loop_body ::
  "environment \<Rightarrow> 'w Agent \<Rightarrow> string \<Rightarrow> 'w run \<Rightarrow> flow \<times> 'w run" where
  "loop_body env a p s =
     (case trim_conversation (encode env) (llm a) (messages s) of
        (Some e, ms) \<Rightarrow> (Raise e, s\<lparr>messages := ms\<rparr>)
      | (None, ms) \<Rightarrow>
          (case get_completion (llm a) ms (world s) of
             (Inl e, w1) \<Rightarrow>
               (Raise e, s\<lparr>messages := ms, world := w1, calls := calls s @ [ModelCall ms]\<rparr>)
           | (Inr raw, w1) \<Rightarrow>
               (case parse_output a raw w1 of
                  (Inl e, w2) \<Rightarrow>
                    (Raise e, s\<lparr>messages := ms, world := w2, calls := calls s @ [ModelCall ms]\<rparr>)
                | (Inr (out, obs), w2) \<Rightarrow>
                    after_parse env a p out obs
                      (s\<lparr>messages := ms, world := w2, calls := calls s @ [ModelCall ms]\<rparr>))))"

subsection \<open>The fallback answer\<close>

text \<open>
  \<^verbatim>\<open>schema.model_json_schema()["properties"]\<close> and the attributes read from the
  output schema: calling them on \<^verbatim>\<open>None\<close> or on a string raises AttributeError.
\<close>

definition schema_class :: "schema option \<Rightarrow> string \<Rightarrow> error + BaseModelClass" where
  "schema_class sc attr =
     (case sc of
        Some (SchemaClass c) \<Rightarrow> Inr c
      | Some (SchemaStr x) \<Rightarrow> Inl (AttributeError (''str object has no attribute '' @ attr))
      | None \<Rightarrow> Inl (AttributeError (''NoneType object has no attribute '' @ attr)))"

definition null_mapping :: "string list \<Rightarrow> (string \<times> pyval) list" where
  "null_mapping ks = dict_comp (\<lambda>k. (k, PyNone)) ks"

text \<open>
  The dict comprehension \<^verbatim>\<open>{field: (data_type | None, None) for ...}\<close>, of which
  the names are kept: \<^verbatim>\<open>data_type | None\<close> raises TypeError for an annotation
  that is a text.
\<close>

fun optional_fields :: "(string \<times> annotation) list \<Rightarrow> error + string list" where
  "optional_fields [] = Inr []"
| "optional_fields ((f, EvaluatedType t) # fs) =
     (case optional_fields fs of Inl e \<Rightarrow> Inl e | Inr ns \<Rightarrow> Inr (f # ns))"
| "optional_fields ((f, PostponedType t) # fs) =
     Inl (TypeError ''unsupported operand type(s) for |: str and NoneType'')"

text \<open>
  The answer built after the loop. For the object types pydantic's \<^verbatim>\<open>create_model\<close>
  makes a class with every annotated field optional and defaulted to \<^verbatim>\<open>None\<close>; its
  instance has \<^verbatim>\<open>None\<close> in every field.
\<close>

definition fallback_answer :: "'w AgentOutputParser \<Rightarrow> error + pyval" where
  "fallback_answer op =
     (if output_type op = STRUCT then
        (case schema_class (object_schema op) ''model_json_schema'' of
           Inl e \<Rightarrow> Inl e
         | Inr c \<Rightarrow> Inr (PyDict (null_mapping (properties c))))
      else if output_type op = ARRAY_STRUCT then
        (case schema_class (object_schema op) ''model_json_schema'' of
           Inl e \<Rightarrow> Inl e
         | Inr c \<Rightarrow> Inr (PyList [PyDict (null_mapping (properties c))]))
      else if output_type op \<in> {OBJECT, ARRAY_OBJECT} then
        (case schema_class (output_schema op) ''__annotations__'' of
           Inl e \<Rightarrow> Inl e
         | Inr c \<Rightarrow>
             (case optional_fields (annotations c) of
                Inl e \<Rightarrow> Inl e
              | Inr ns \<Rightarrow>
                  (let inst = PyModel (class_name c) (null_mapping ns)
                   in Inr (if output_type op = OBJECT then inst else PyList [inst]))))
      else Inr PyNone)"

subsection \<open>The loop and invoke\<close>

text \<open>
  How \<^verbatim>\<open>invoke\<close> ends: by the \<^verbatim>\<open>return\<close> inside the loop, by the
  \<^verbatim>\<open>return\<close> after the loop, or by an exception.
\<close>

datatype outcome =
    FINAL_ANSWER_REACHED AgentOutput
  | BUDGET_EXHAUSTED AgentOutput
  | Raised error

function invoke_loop ::
  "environment \<Rightarrow> 'w Agent \<Rightarrow> string \<Rightarrow> int \<Rightarrow> 'w run \<Rightarrow> outcome \<times> 'w run" where
  "invoke_loop env a p iteration s =
     (if iteration \<le> iterations a then
        (case loop_body env a p s of
           (Continue, s') \<Rightarrow> invoke_loop env a p (iteration + 1) s'
         | (Return out, s') \<Rightarrow> (FINAL_ANSWER_REACHED out, s')
         | (Raise e, s') \<Rightarrow> (Raised e, s'))
      else
        (case fallback_answer (output_parser a) of
           Inl e \<Rightarrow> (Raised e, s)
         | Inr fa \<Rightarrow>
             (case new_AgentOutput env p fa (chain_of_thought s) of
                Inl e \<Rightarrow> (Raised e, s)
              | Inr out \<Rightarrow> (BUDGET_EXHAUSTED out, s))))"
  by pat_completeness auto
termination
  by (relation "measure (\<lambda>(env, a, p, iteration, s). nat (iterations a + 1 - iteration))") auto

text \<open>
  \<^verbatim>\<open>Agent.invoke\<close>, from the agent, the prompt inputs and the hidden state of the
  collaborators. A prompt variable that the inputs lack is \<^verbatim>\<open>None\<close>. The chat of the
  result is the chat of the agent after the call.
\<close>

definition prompt_kwargs :: "'w Agent \<Rightarrow> (string \<rightharpoonup> pyval) \<Rightarrow> (string \<rightharpoonup> pyval)" where
  "prompt_kwargs a inputs =
     (\<lambda>v. if v \<in> set (prompt_variables a)
           then Some (case inputs v of None \<Rightarrow> PyNone | Some x \<Rightarrow> x) else None)"

definition start_run :: "'w Agent \<Rightarrow> string \<Rightarrow> 'w \<Rightarrow> 'w run" where
  "start_run a p w =
     \<lparr>messages = messages (chat a) @ [\<lparr>role = USER, content = p\<rparr>],
      chain_of_thought = [ReasoningStep PROMPT (Text p)],
      steps = [],
      world = w,
      calls = []\<rparr>"

definition invoke ::
  "environment \<Rightarrow> 'w Agent \<Rightarrow> (string \<rightharpoonup> pyval) \<Rightarrow> 'w \<Rightarrow> outcome \<times> 'w run" where
  "invoke env a inputs w =
     (case py_format env (prompt a) (prompt_kwargs a inputs) of
        Inl e \<Rightarrow>
          (Raised e,
           \<lparr>messages = messages (chat a), chain_of_thought = chain_of_thought (chat a),
            steps = steps (chat a), world = w, calls = []\<rparr>)
      | Inr p \<Rightarrow> invoke_loop env a p 0 (start_run a p w))"


subsection \<open>Construction\<close>

text \<open>
  What \<^verbatim>\<open>Agent.create\<close> takes from modules that are not among the sources
  (\<^verbatim>\<open>agent/prompt.py\<close>, \<^verbatim>\<open>agent/output_parser.py\<close>, \<^verbatim>\<open>tools/tool.py\<close>):
  the two instruction texts, the second one as the function that fills in the tools; the
  final-answer instructions for an object type with its schema class, for a date type with
  its schema, and for any other type, each a lookup in \<^verbatim>\<open>FINAL_ANSWER_INSTRUCTIONS\<close>
  that may raise; \<^verbatim>\<open>str\<close> of a tool and of an output type; and the constructor of the
  parser, which may raise.
\<close>

record 'w library =
  INSTRUCTIONS_WITHOUT_TOOLS :: string
  INSTRUCTIONS_WITH_TOOLS :: "string \<Rightarrow> string"
  object_instructions :: "OutputType \<Rightarrow> BaseModelClass \<Rightarrow> error + string"
  schema_instructions :: "OutputType \<Rightarrow> schema option \<Rightarrow> error + string"
  plain_instructions :: "OutputType \<Rightarrow> error + string"
  tool_str :: "'w Tool \<Rightarrow> string"
  output_type_str :: "OutputType \<Rightarrow> string"
  new_parser :: "OutputType \<Rightarrow> schema option \<Rightarrow> bool \<Rightarrow> error + 'w AgentOutputParser"

text \<open>The default of \<^verbatim>\<open>iterations\<close>, in the class and in \<^verbatim>\<open>create\<close>.\<close>

definition default_iterations :: int where
  "default_iterations = 10"

definition final_answer_instructions ::
  "'w library \<Rightarrow> OutputType \<Rightarrow> schema option \<Rightarrow> error + string" where
  "final_answer_instructions lib ot os =
     (if ot \<in> {OBJECT, ARRAY_OBJECT} then
        (case os of
           None \<Rightarrow>
             Inl (ValueError (''When using '' @ output_type_str lib ot @
                              '' as the output type a schema must be provided.''))
         | Some sc \<Rightarrow>
             (case schema_class os ''model_json_schema'' of
                Inl e \<Rightarrow> Inl e
              | Inr c \<Rightarrow> object_instructions lib ot c))
      else if ot \<in> {DATE, TIMESTAMP} then schema_instructions lib ot os
      else plain_instructions lib ot)"

definition create ::
  "'w library \<Rightarrow> 'w OpenAILanguageModel \<Rightarrow> string \<Rightarrow> string \<Rightarrow> string list \<Rightarrow> OutputType
     \<Rightarrow> schema option \<Rightarrow> 'w Tool list option \<Rightarrow> PromptingStrategy \<Rightarrow> int
     \<Rightarrow> error + 'w Agent" where
  "create lib l system_prompt template variables ot os ts strategy n =
     (let (instructions, tool_use, tools') =
            (case ts of
               None \<Rightarrow> (INSTRUCTIONS_WITHOUT_TOOLS lib, False, None)
             | Some tools_list \<Rightarrow>
                 (INSTRUCTIONS_WITH_TOOLS lib
                    (join [CHR ''\<newline>'', CHR ''\<newline>''] (map (tool_str lib) tools_list)),
                  True,
                  Some (dict_comp (\<lambda>t. (tool_name t, t)) tools_list)))
      in case final_answer_instructions lib ot os of
           Inl e \<Rightarrow> Inl e
         | Inr fai \<Rightarrow>
             (case new_parser lib ot os tool_use of
                Inl e \<Rightarrow> Inl e
              | Inr parser \<Rightarrow>
                  Inr \<lparr>llm = l,
                       tools = tools',
                       prompt = template,
                       prompt_variables = variables,
                       output_parser = parser,
                       chat = \<lparr>messages =
                                  [\<lparr>role = SYSTEM,
                                    content = join [CHR ''\<newline>'', CHR ''\<newline>'']
                                                [system_prompt, instructions, fai]\<rparr>],
                               chain_of_thought = [],
                               steps = []\<rparr>,
                       prompting_strategy = strategy,
                       iterations = n\<rparr>))"

subsection \<open>Notions used in the statements\<close>

text \<open>Trimming \<open>n\<close> times in a row, whatever each trim ends with.\<close>

definition trims ::
  "(string \<Rightarrow> nat list) \<Rightarrow> 'w OpenAILanguageModel \<Rightarrow> nat \<Rightarrow> ChatMessage list
     \<Rightarrow> ChatMessage list" where
  "trims enc l n ms = ((\<lambda>xs. snd (trim_conversation enc l xs)) ^^ n) ms"



text \<open>
  How a message log may change when nothing but trimming removes from it: by a deletion
  as the trim loop makes it (the estimate has reached the limit of the model, and the
  message at index 1 is deleted), or by messages appended at the end.
\<close>

inductive log_evolves ::
  "(string \<Rightarrow> nat list) \<Rightarrow> 'w OpenAILanguageModel \<Rightarrow> ChatMessage list \<Rightarrow> ChatMessage list
     \<Rightarrow> bool"
  for enc :: "string \<Rightarrow> nat list" and l :: "'w OpenAILanguageModel" and ms :: "ChatMessage list"
where
  same: "log_evolves enc l ms ms"
| removal:
    "log_evolves enc l ms ms1 \<Longrightarrow> map_of MODEL_TOKEN_LIMIT (model l) = Some lim \<Longrightarrow>
     num_tokens_from_messages enc ms1 + max_tokens l \<ge> lim \<Longrightarrow> py_del ms1 1 = Inr ms2 \<Longrightarrow>
       log_evolves enc l ms ms2"
| appended: "log_evolves enc l ms ms1 \<Longrightarrow> log_evolves enc l ms (ms1 @ added)"

subsection \<open>A small configuration\<close>

text \<open>
  A tokenizer with one token per character, a \<^verbatim>\<open>str\<close> that prints texts and
  \<^verbatim>\<open>None\<close>, a template without placeholders, an update that appends the user
  turn, and a validation that converts nothing; a model that always answers the same text, and a parser that always gives the same
  result \<open>r\<close>. The collaborators have no hidden state.
\<close>

definition ex_encode :: "string \<Rightarrow> nat list" where
  "ex_encode txt = map (\<lambda>c. 0) txt"

fun ex_str :: "pyval \<Rightarrow> string" where
  "ex_str (PyStr txt) = txt"
| "ex_str v = ''None''"

definition ex_update :: "string \<Rightarrow> string list \<Rightarrow> ChatMessage list \<Rightarrow> ChatMessage list" where
  "ex_update p summaries ms = ms @ [\<lparr>role = USER, content = join ''; '' (p # summaries)\<rparr>]"

definition ex_env :: environment where
  "ex_env = \<lparr>encode = ex_encode, py_str = ex_str, py_format = (\<lambda>t kw. Inr t),
             Chat_update = ex_update,
             lax_validate = (\<lambda>v. Inl (ValueError ''validation error for AgentOutput''))\<rparr>"

definition ex_llm :: "unit OpenAILanguageModel" where
  "ex_llm = \<lparr>model = ''gpt-4'', max_tokens = 1000,
             get_completion = (\<lambda>ms w. (Inr ''raw output'', w))\<rparr>"

definition ex_tool :: "unit Tool" where
  "ex_tool = \<lparr>tool_name = ''search'', tool_invoke = (\<lambda>inp w. (Inr (PyStr ''found''), w))\<rparr>"

definition ex_agent ::
  "(error + LLMOutput) \<Rightarrow> (string \<times> unit Tool) list option \<Rightarrow> unit Agent" where
  "ex_agent r ts =
     \<lparr>llm = ex_llm,
      tools = ts,
      prompt = ''Question'',
      prompt_variables = [],
      output_parser =
        \<lparr>output_type = OtherType ''string'', output_schema = None, object_schema = None,
         parse = (\<lambda>raw w. (r, w))\<rparr>,
      chat = \<lparr>messages = [\<lparr>role = SYSTEM, content = ''sys''\<rparr>], chain_of_thought = [],
              steps = []\<rparr>,
      prompting_strategy = CHAIN_OF_THOUGHT,
      iterations = 1\<rparr>"

text \<open>
  For construction: instruction texts, a parser that never parses, and a structured
  output with the fields \<open>a\<close> and \<open>b\<close>.
\<close>

fun ex_type_str :: "OutputType \<Rightarrow> string" where
  "ex_type_str OBJECT = ''object''"
| "ex_type_str ARRAY_OBJECT = ''array_object''"
| "ex_type_str ot = ''other''"

definition ex_lib :: "unit library" where
  "ex_lib =
     \<lparr>INSTRUCTIONS_WITHOUT_TOOLS = ''Answer directly.'',
      INSTRUCTIONS_WITH_TOOLS = (\<lambda>t. ''Tools: '' @ t),
      object_instructions = (\<lambda>ot c. Inr ''Answer with an object.''),
      schema_instructions = (\<lambda>ot sc. Inr ''Answer with a date.''),
      plain_instructions = (\<lambda>ot. Inr ''Answer.''),
      tool_str = tool_name,
      output_type_str = ex_type_str,
      new_parser = (\<lambda>ot sc tu. Inr
        \<lparr>output_type = ot, output_schema = sc, object_schema = None,
         parse = (\<lambda>raw w. (Inl (ValueError ''unparsable''), w))\<rparr>)\<rparr>"

definition ex_struct_agent :: "unit Agent" where
  "ex_struct_agent =
     (ex_agent (Inl (ValueError ''unparsable'')) None)
       \<lparr>output_parser :=
          \<lparr>output_type = STRUCT, output_schema = None,
           object_schema = Some (SchemaClass
             \<lparr>class_name = ''Answer'', annotations = [(''a'', EvaluatedType ''str''), (''b'', EvaluatedType ''int'')], properties = [''a'', ''b'']\<rparr>),
           parse = (\<lambda>raw w. (Inl (ValueError ''unparsable''), w))\<rparr>\<rparr>"

definition no_inputs :: "string \<rightharpoonup> pyval" where
  "no_inputs = Map.empty"

section \<open>Properties\<close>

declare trim_conversation.simps [simp del]
declare invoke_loop.simps [simp del]

subsection \<open>Trimming\<close>

lemma py_del_1_shape:
  "py_del ms (Suc 0) = Inr ms' \<Longrightarrow> ms \<noteq> [] \<and> ms' = hd ms # drop 2 ms"
  by (cases ms) (auto simp: py_del_def split: if_splits)

lemma trim_shape:
  "ms \<noteq> [] \<Longrightarrow> \<exists>k. snd (trim_conversation enc l ms) = hd ms # drop (Suc k) ms"
proof (induction enc l ms rule: trim_conversation.induct)
  case (1 enc l ms)
  from "1.prems" have same: "ms = hd ms # drop (Suc 0) ms"
    by (cases ms) simp_all
  show ?case
  proof (cases "map_of MODEL_TOKEN_LIMIT (model l)")
    case None
    then have "snd (trim_conversation enc l ms) = ms"
      by (simp add: trim_conversation.simps [of enc l ms])
    with same show ?thesis by metis
  next
    case (Some lim)
    show ?thesis
    proof (cases "num_tokens_from_messages enc ms + max_tokens l \<ge> lim")
      case False
      with Some have "snd (trim_conversation enc l ms) = ms"
        by (simp add: trim_conversation.simps [of enc l ms])
      with same show ?thesis by metis
    next
      case True
      show ?thesis
      proof (cases "py_del ms 1")
        case (Inl e)
        with Some True have "snd (trim_conversation enc l ms) = ms"
          by (simp add: trim_conversation.simps [of enc l ms])
        with same show ?thesis by metis
      next
        case (Inr ms')
        then have sh: "ms' = hd ms # drop 2 ms" and ne: "ms' \<noteq> []"
          using py_del_1_shape [of ms ms'] by simp_all
        from "1.IH" [OF Some True Inr ne] obtain k
          where k: "snd (trim_conversation enc l ms') = hd ms' # drop (Suc k) ms'" by blast
        from Some True Inr have "trim_conversation enc l ms = trim_conversation enc l ms'"
          by (simp add: trim_conversation.simps [of enc l ms])
        with k sh have "snd (trim_conversation enc l ms) = hd ms # drop (Suc (Suc k)) ms"
          by (cases ms) (simp_all add: drop_Suc)
        then show ?thesis by blast
      qed
    qed
  qed
qed

lemma trim_returns_within_limit:
  "fst (trim_conversation enc l ms) = None \<Longrightarrow>
     \<exists>lim. map_of MODEL_TOKEN_LIMIT (model l) = Some lim \<and>
       num_tokens_from_messages enc (snd (trim_conversation enc l ms)) + max_tokens l < lim"
proof (induction enc l ms rule: trim_conversation.induct)
  case (1 enc l ms)
  show ?case
    using "1.prems" "1.IH"
    by (subst (asm) trim_conversation.simps, subst trim_conversation.simps)
       (auto split: option.splits if_splits sum.splits)
qed

lemma tokens_of_fields_ge: "n \<le> tokens_of_fields enc (model_dump m) n"
  by (simp add: model_dump_def)

lemma tokens_of_messages_ge: "n \<le> tokens_of_messages enc ms n"
proof (induction ms arbitrary: n)
  case Nil
  show ?case by simp
next
  case (Cons m ms)
  have "n \<le> n + 4" by simp
  also have "\<dots> \<le> tokens_of_fields enc (model_dump m) (n + 4)"
    by (rule tokens_of_fields_ge)
  also have "\<dots> \<le> tokens_of_messages enc ms (tokens_of_fields enc (model_dump m) (n + 4))"
    by (rule Cons.IH)
  finally show ?case by simp
qed

lemma trims_shape:
  "ms \<noteq> [] \<Longrightarrow> \<exists>k. trims enc l n ms = hd ms # drop (Suc k) ms"
proof (induction n)
  case 0
  then have "trims enc l 0 ms = hd ms # drop (Suc 0) ms"
    by (cases ms) (simp_all add: trims_def)
  then show ?case by blast
next
  case (Suc n)
  then obtain k where k: "trims enc l n ms = hd ms # drop (Suc k) ms" by blast
  then have ne: "trims enc l n ms \<noteq> []" by simp
  from trim_shape [OF ne, of enc l] obtain j
    where "snd (trim_conversation enc l (trims enc l n ms))
             = hd (trims enc l n ms) # drop (Suc j) (trims enc l n ms)" by blast
  with k have "trims enc l (Suc n) ms = hd ms # drop (j + Suc k) ms"
    by (simp add: trims_def add.commute)
  then have "trims enc l (Suc n) ms = hd ms # drop (Suc (j + k)) ms" by simp
  then show ?case by blast
qed

text \<open>
  C3. In a log that starts with the system message, any number of trims leaves that
  message at index 0, and what is removed is always what stands at index 1: the log after
  the trims is the first message followed by the old log without its first \<open>k + 1\<close>
  messages.
\<close>

theorem trim_keeps_system_message:
  assumes "ms \<noteq> []"
  shows "trims enc l n ms \<noteq> [] \<and> trims enc l n ms ! 0 = ms ! 0 \<and>
         (\<exists>k. trims enc l n ms = ms ! 0 # drop (Suc k) ms)"
proof -
  from trims_shape [OF assms, of enc l n] obtain k
    where k: "trims enc l n ms = hd ms # drop (Suc k) ms" by blast
  from assms have "hd ms = ms ! 0" by (simp add: hd_conv_nth)
  with k show ?thesis by auto
qed

theorem trim_keeps_system_message_witness:
  "[\<lparr>role = SYSTEM, content = ''sys''\<rparr>, \<lparr>role = USER, content = ''hello''\<rparr>] \<noteq> [] \<and>
   trims ex_encode (ex_llm\<lparr>max_tokens := 8170\<rparr>) 2
     [\<lparr>role = SYSTEM, content = ''sys''\<rparr>, \<lparr>role = USER, content = ''hello''\<rparr>] ! 0
     = \<lparr>role = SYSTEM, content = ''sys''\<rparr>"
  using trim_keeps_system_message
    [of "[\<lparr>role = SYSTEM, content = ''sys''\<rparr>, \<lparr>role = USER, content = ''hello''\<rparr>]"
        ex_encode "ex_llm\<lparr>max_tokens := 8170\<rparr>" 2]
  by simp

text \<open>
  Whenever only one message is left and the estimate is still at or over the limit, the
  deletion at index 1 fails; by \<open>trim_returns_within_limit\<close> a trim that returns has
  always reached the bound.
\<close>

lemma trim_single_over_limit:
  assumes "map_of MODEL_TOKEN_LIMIT (model l) = Some lim"
    and "num_tokens_from_messages enc [m] + max_tokens l \<ge> lim"
  shows "trim_conversation enc l [m]
           = (Some (IndexError ''list assignment index out of range''), [m])"
  using assms by (subst trim_conversation.simps) (simp add: py_del_def)

lemma loop_body_trim_raises:
  "trim_conversation (encode env) (llm a) (messages s) = (Some e, ms) \<Longrightarrow>
     loop_body env a p s = (Raise e, s\<lparr>messages := ms\<rparr>)"
  by (simp add: loop_body_def)

text \<open>
  C2. A log that holds only the system message and is still over the limit: the test of
  the loop is true, \<^verbatim>\<open>del self.chat.messages[1]\<close> finds no element at index 1, and
  the trim ends with IndexError instead of returning. Here the model is gpt-35-turbo
  (limit 4096) with 4096 output tokens, for any tokenizer and any message.
\<close>

theorem trim_system_only_raises:
  "trim_conversation enc \<lparr>model = ''gpt-35-turbo'', max_tokens = 4096, get_completion = g\<rparr> [m]
     = (Some (IndexError ''list assignment index out of range''), [m])"
proof -
  have "0 \<le> tokens_of_messages enc [m] 0"
    by (rule tokens_of_messages_ge)
  then show ?thesis
    by (subst trim_conversation.simps)
       (simp add: MODEL_TOKEN_LIMIT_def num_tokens_from_messages_def py_del_def)
qed

subsection \<open>The loop\<close>

lemma new_AgentOutput_strict:
  "strict_final_answer fa \<Longrightarrow> new_AgentOutput env p fa cot = Inr (AgentOutput p fa cot)"
  by (simp add: new_AgentOutput_def)

lemma new_AgentOutput_fields:
  "new_AgentOutput env p fa cot = Inr ou \<Longrightarrow>
     output_prompt ou = p \<and> output_chain_of_thought ou = cot \<and>
     (if strict_final_answer fa then final_answer ou = fa
      else lax_validate env fa = Inr (final_answer ou))"
  by (auto simp: new_AgentOutput_def split: if_splits sum.splits)

lemma optional_fields_names:
  "optional_fields fs = Inr ns \<Longrightarrow> ns = map fst fs"
  by (induction fs arbitrary: ns rule: optional_fields.induct) (auto split: sum.splits)

lemma fallback_answer_strict:
  "fallback_answer op = Inr fa \<Longrightarrow> strict_final_answer fa"
  by (auto simp: fallback_answer_def Let_def split: if_splits sum.splits)


lemma use_tool_cot_prefix:
  "use_tool env a t inp obs s = (r, s') \<Longrightarrow> \<exists>xs. chain_of_thought s' = chain_of_thought s @ xs"
  by (auto simp: use_tool_def split: prod.splits option.splits sum.splits)


lemma after_parse_cot_prefix:
  "after_parse env a p out obs s = (f, s') \<Longrightarrow> \<exists>xs. chain_of_thought s' = chain_of_thought s @ xs"
  by (auto simp: after_parse_def observe_def Let_def dest!: use_tool_cot_prefix
           split: prod.splits option.splits sum.splits LLMOutput.splits)

lemma after_parse_return:
  "after_parse env a p out obs s = (Return ou, s') \<Longrightarrow>
     output_chain_of_thought ou = chain_of_thought s' \<and> output_prompt ou = p"
  by (auto simp: after_parse_def observe_def Let_def dest!: new_AgentOutput_fields
           split: prod.splits option.splits sum.splits LLMOutput.splits)


lemma loop_body_cot_prefix:
  "loop_body env a p s = (f, s') \<Longrightarrow> \<exists>xs. chain_of_thought s' = chain_of_thought s @ xs"
  by (auto simp: loop_body_def parse_output_def dest!: after_parse_cot_prefix
           split: prod.splits option.splits sum.splits error.splits)

lemma loop_body_return:
  "loop_body env a p s = (Return ou, s') \<Longrightarrow>
     output_chain_of_thought ou = chain_of_thought s' \<and> output_prompt ou = p"
  by (auto simp: loop_body_def parse_output_def dest!: after_parse_return
           split: prod.splits option.splits sum.splits error.splits)

lemma invoke_loop_exhausted:
  "\<not> i \<le> iterations a \<Longrightarrow>
     invoke_loop env a p i s =
       (case fallback_answer (output_parser a) of
          Inl e \<Rightarrow> (Raised e, s)
        | Inr fa \<Rightarrow> (BUDGET_EXHAUSTED (AgentOutput p fa (chain_of_thought s)), s))"
  by (subst invoke_loop.simps)
     (auto simp: new_AgentOutput_strict dest!: fallback_answer_strict split: sum.splits)

lemma invoke_loop_step:
  "i \<le> iterations a \<Longrightarrow> loop_body env a p s = (f, s') \<Longrightarrow>
     invoke_loop env a p i s =
       (case f of
          Continue \<Rightarrow> invoke_loop env a p (i + 1) s'
        | Return out \<Rightarrow> (FINAL_ANSWER_REACHED out, s')
        | Raise e \<Rightarrow> (Raised e, s'))"
  by (subst invoke_loop.simps) simp



subsection \<open>The small configuration, evaluated\<close>

lemma ex_env_sel:
  "encode ex_env = ex_encode" "py_str ex_env = ex_str"
  "py_format ex_env t kw = Inr t" "Chat_update ex_env = ex_update"
  "lax_validate ex_env v = Inl (ValueError ''validation error for AgentOutput'')"
  by (simp_all add: ex_env_def)

lemma ex_agent_sel:
  "llm (ex_agent r ts) = ex_llm" "tools (ex_agent r ts) = ts"
  "prompt (ex_agent r ts) = ''Question''"
  "parse (output_parser (ex_agent r ts)) raw w = (r, w)"
  "output_type (output_parser (ex_agent r ts)) = OtherType ''string''"
  "messages (chat (ex_agent r ts)) = [\<lparr>role = SYSTEM, content = ''sys''\<rparr>]"
  "iterations (ex_agent r ts) = 1"
  by (simp_all add: ex_agent_def)

lemma ex_llm_sel:
  "get_completion ex_llm ms w = (Inr ''raw output'', w)"
  by (simp add: ex_llm_def)

lemma ex_trim_start:
  "trim_conversation ex_encode ex_llm
     [\<lparr>role = SYSTEM, content = ''sys''\<rparr>, \<lparr>role = USER, content = ''Question''\<rparr>]
   = (None, [\<lparr>role = SYSTEM, content = ''sys''\<rparr>, \<lparr>role = USER, content = ''Question''\<rparr>])"
  by (subst trim_conversation.simps)
     (simp add: ex_llm_def ex_encode_def MODEL_TOKEN_LIMIT_def num_tokens_from_messages_def model_dump_def)

lemma ex_start:
  "start_run (ex_agent r ts) ''Question'' () =
     \<lparr>messages = [\<lparr>role = SYSTEM, content = ''sys''\<rparr>, \<lparr>role = USER, content = ''Question''\<rparr>],
      chain_of_thought = [ReasoningStep PROMPT (Text ''Question'')], steps = [],
      world = (), calls = []\<rparr>"
  by (simp add: start_run_def ex_agent_def)

lemma ex_tool_sel:
  "tool_invoke ex_tool inp w = (Inr (PyStr ''found''), w)" "tool_name ex_tool = ''search''"
  by (simp_all add: ex_tool_def)

lemmas ex_simps = ex_env_sel ex_agent_sel ex_llm_sel ex_trim_start ex_start

subsection \<open>Single turns\<close>

lemma loop_body_parsed:
  assumes "trim_conversation (encode env) (llm a) (messages s) = (None, ms)"
    and "get_completion (llm a) ms (world s) = (Inr raw, w1)"
    and "parse (output_parser a) raw w1 = (Inr ou, w2)"
  shows "loop_body env a p s =
           after_parse env a p (Some ou) ObsNone
             (s\<lparr>messages := ms, world := w2, calls := calls s @ [ModelCall ms]\<rparr>)"
  using assms by (simp add: loop_body_def parse_output_def)



lemma invoke_loop_continue:
  "i \<le> iterations a \<Longrightarrow> loop_body env a p s = (Continue, s') \<Longrightarrow>
     invoke_loop env a p i s = invoke_loop env a p (i + 1) s'"
  by (simp add: invoke_loop_step)


lemma invoke_loop_return:
  "i \<le> iterations a \<Longrightarrow> loop_body env a p s = (Return ou, s') \<Longrightarrow>
     invoke_loop env a p i s = (FINAL_ANSWER_REACHED ou, s')"
  by (simp add: invoke_loop_step)

lemma loop_body_tool_registered:
  assumes "trim_conversation (encode env) (llm a) (messages s) = (None, ms)"
    and "get_completion (llm a) ms (world s) = (Inr raw, w1)"
    and "parse (output_parser a) raw w1 = (Inr (LLMToolUse th t inp), w2)"
    and "tools a = Some ts" and "map_of ts t = Some tool"
    and "tool_invoke tool inp w2 = (Inr res, w3)"
  shows "loop_body env a p s =
           (Continue,
            s\<lparr>messages :=
                Chat_update env p
                  (steps s @ [''Thought: '' @ th, ''Tool: '' @ tool_name tool,
                     ''Tool Input: '' @ py_str env inp,
                     ''Observation: '' @ ''Tool Response:\<newline>'' @ py_str env res]) ms,
              chain_of_thought := chain_of_thought s @
                [ReasoningStep THOUGHT (Text th),
                 ReasoningStep TOOL (ToolContent (ReasoningStepTool t inp res))],
              steps := steps s @ [''Thought: '' @ th, ''Tool: '' @ tool_name tool,
                     ''Tool Input: '' @ py_str env inp,
                     ''Observation: '' @ ''Tool Response:\<newline>'' @ py_str env res],
              world := w3, calls := calls s @ [ModelCall ms, ToolCall t inp]\<rparr>)"
  using assms
  by (simp add: loop_body_parsed [OF assms(1-3)] after_parse_def use_tool_def observe_def)

lemma loop_body_tool_raises:
  assumes "trim_conversation (encode env) (llm a) (messages s) = (None, ms)"
    and "get_completion (llm a) ms (world s) = (Inr raw, w1)"
    and "parse (output_parser a) raw w1 = (Inr (LLMToolUse th t inp), w2)"
    and "tools a = Some ts" and "map_of ts t = Some tool"
    and "tool_invoke tool inp w2 = (Inl e, w3)"
  shows "loop_body env a p s =
           (Raise e,
            s\<lparr>messages := ms,
              chain_of_thought := chain_of_thought s @ [ReasoningStep THOUGHT (Text th)],
              steps := steps s @ [''Thought: '' @ th],
              world := w3, calls := calls s @ [ModelCall ms, ToolCall t inp]\<rparr>)"
  using assms
  by (simp add: loop_body_parsed [OF assms(1-3)] after_parse_def use_tool_def observe_def)

lemma loop_body_tool_unknown:
  assumes "trim_conversation (encode env) (llm a) (messages s) = (None, ms)"
    and "get_completion (llm a) ms (world s) = (Inr raw, w1)"
    and "parse (output_parser a) raw w1 = (Inr (LLMToolUse th t inp), w2)"
    and "tools a = Some ts" and "map_of ts t = None"
  shows "loop_body env a p s =
           (Continue,
            s\<lparr>messages :=
                Chat_update env p
                  (steps s @ [''Thought: '' @ th,
                     ''Observation: '' @ t @ '' tool doesn't exist. Try one of these tools: '' @
                       join '', '' (map fst ts)]) ms,
              chain_of_thought := chain_of_thought s @ [ReasoningStep THOUGHT (Text th)],
              steps := steps s @ [''Thought: '' @ th,
                     ''Observation: '' @ t @ '' tool doesn't exist. Try one of these tools: '' @
                       join '', '' (map fst ts)],
              world := w2, calls := calls s @ [ModelCall ms]\<rparr>)"
  using assms
  by (simp add: loop_body_parsed [OF assms(1-3)] after_parse_def use_tool_def observe_def)

lemma loop_body_no_tools:
  assumes "trim_conversation (encode env) (llm a) (messages s) = (None, ms)"
    and "get_completion (llm a) ms (world s) = (Inr raw, w1)"
    and "parse (output_parser a) raw w1 = (Inr (LLMToolUse th t inp), w2)"
    and "tools a = None"
  shows "loop_body env a p s =
           (Continue,
            s\<lparr>messages :=
                Chat_update env p (steps s @ [''Thought: '' @ th, ''Observation: None'']) ms,
              chain_of_thought := chain_of_thought s @ [ReasoningStep THOUGHT (Text th)],
              steps := steps s @ [''Thought: '' @ th, ''Observation: None''],
              world := w2, calls := calls s @ [ModelCall ms]\<rparr>)"
  using assms
  by (simp add: loop_body_parsed [OF assms(1-3)] after_parse_def use_tool_def observe_def)

lemma loop_body_final_answer:
  assumes "trim_conversation (encode env) (llm a) (messages s) = (None, ms)"
    and "get_completion (llm a) ms (world s) = (Inr raw, w1)"
    and "parse (output_parser a) raw w1 = (Inr (LLMFinalAnswer th fa), w2)"
  shows "loop_body env a p s =
           (case new_AgentOutput env p fa
                   (chain_of_thought s @
                      [ReasoningStep THOUGHT (Text th),
                       ReasoningStep FINAL_ANSWER (Text (py_str env fa))]) of
              Inl e \<Rightarrow> Raise e
            | Inr ou \<Rightarrow> Return ou,
            s\<lparr>messages := ms @ [\<lparr>role = ASSISTANT, content = py_str env fa\<rparr>],
              chain_of_thought := chain_of_thought s @
                [ReasoningStep THOUGHT (Text th),
                 ReasoningStep FINAL_ANSWER (Text (py_str env fa))],
              steps := steps s @ [''Thought: '' @ th],
              world := w2, calls := calls s @ [ModelCall ms]\<rparr>)"
  using assms
  by (simp add: loop_body_parsed [OF assms(1-3)] after_parse_def split: sum.splits)



text \<open>
  C10. A turn in which the parser gives a tool use and the agent has no tools: no tool is
  invoked (the only new call is the one to the model), the thought step is the only new
  reasoning step, the summaries of the turn are the thought and \<^verbatim>\<open>Observation: None\<close>,
  and the loop goes on with the next iteration.
\<close>

theorem tool_use_without_tools:
  assumes "trim_conversation (encode env) (llm a) (messages s) = (None, ms)"
    and "get_completion (llm a) ms (world s) = (Inr raw, w1)"
    and "parse (output_parser a) raw w1 = (Inr (LLMToolUse th t inp), w2)"
    and "tools a = None"
  shows "\<exists>s'. loop_body env a p s = (Continue, s') \<and>
              steps s' = steps s @ [''Thought: '' @ th, ''Observation: None''] \<and>
              chain_of_thought s' = chain_of_thought s @ [ReasoningStep THOUGHT (Text th)] \<and>
              calls s' = calls s @ [ModelCall ms] \<and>
              world s' = w2 \<and>
              (i \<le> iterations a \<longrightarrow>
                 invoke_loop env a p i s = invoke_loop env a p (i + 1) s')"
proof -
  note b = loop_body_no_tools [OF assms, of p]
  show ?thesis
    by (rule exI, intro conjI, rule b) (simp_all add: invoke_loop_continue [OF _ b])
qed

theorem tool_use_without_tools_witness:
  "tools (ex_agent (Inr (LLMToolUse ''look it up'' ''search'' (PyStr ''cats''))) None) = None \<and>
   fst (loop_body ex_env
          (ex_agent (Inr (LLMToolUse ''look it up'' ''search'' (PyStr ''cats''))) None)
          ''Question''
          (start_run
             (ex_agent (Inr (LLMToolUse ''look it up'' ''search'' (PyStr ''cats''))) None)
             ''Question'' ())) = Continue \<and>
   steps (snd (loop_body ex_env
          (ex_agent (Inr (LLMToolUse ''look it up'' ''search'' (PyStr ''cats''))) None)
          ''Question''
          (start_run
             (ex_agent (Inr (LLMToolUse ''look it up'' ''search'' (PyStr ''cats''))) None)
             ''Question'' ())))
     = [''Thought: look it up'', ''Observation: None'']"
  using tool_use_without_tools
    [of ex_env "ex_agent (Inr (LLMToolUse ''look it up'' ''search'' (PyStr ''cats''))) None"
        "start_run (ex_agent (Inr (LLMToolUse ''look it up'' ''search'' (PyStr ''cats''))) None)
           ''Question'' ()"
        "[\<lparr>role = SYSTEM, content = ''sys''\<rparr>, \<lparr>role = USER, content = ''Question''\<rparr>]"
        "''raw output''" "()" "''look it up''" "''search''" "PyStr ''cats''" "()"
        "''Question''" 0]
  by (auto simp: ex_simps)

lemma join_concat:
  "join sep xs = (case xs of [] \<Rightarrow> [] | n # ns \<Rightarrow> n @ concat (map (\<lambda>x. sep @ x) ns))"
  by (induction sep xs rule: join.induct) simp_all

text \<open>
  C5. A turn in which the parser gives a tool use and tools are configured. If the name
  is registered and the tool returns a result, the tool has been invoked once and the
  observation is \<^verbatim>\<open>Tool Response:\<close>, a line break, and the result; if the name is
  not registered, no tool is invoked and the observation is the notice that ends with the
  registered names in their order, each but the first preceded by a comma and a blank. In
  both cases the turn ends with the observation summary and the rebuilt user turn, and the
  loop goes on with the next iteration.
\<close>

theorem tool_dispatch_observation:
  assumes "trim_conversation (encode env) (llm a) (messages s) = (None, ms)"
    and "get_completion (llm a) ms (world s) = (Inr raw, w1)"
    and "parse (output_parser a) raw w1 = (Inr (LLMToolUse th t inp), w2)"
    and "tools a = Some ts"
  shows "(\<forall>tool res w3.
            map_of ts t = Some tool \<and> tool_invoke tool inp w2 = (Inr res, w3) \<longrightarrow>
            (\<exists>s'. loop_body env a p s = (Continue, s') \<and>
                   last (steps s') =
                     ''Observation: '' @ ''Tool Response:\<newline>'' @ py_str env res \<and>
                   calls s' = calls s @ [ModelCall ms, ToolCall t inp] \<and>
                   messages s' = Chat_update env p (steps s') ms \<and>
                   (i \<le> iterations a \<longrightarrow>
                      invoke_loop env a p i s = invoke_loop env a p (i + 1) s'))) \<and>
         (map_of ts t = None \<longrightarrow>
            (\<exists>s'. loop_body env a p s = (Continue, s') \<and>
                   last (steps s') =
                     ''Observation: '' @ t @ '' tool doesn't exist. Try one of these tools: '' @
                       (case map fst ts of
                          [] \<Rightarrow> []
                        | n # ns \<Rightarrow> n @ concat (map (\<lambda>x. '', '' @ x) ns)) \<and>
                   calls s' = calls s @ [ModelCall ms] \<and>
                   messages s' = Chat_update env p (steps s') ms \<and>
                   (i \<le> iterations a \<longrightarrow>
                      invoke_loop env a p i s = invoke_loop env a p (i + 1) s')))"
proof (intro conjI allI impI)
  fix tool res w3
  assume h: "map_of ts t = Some tool \<and> tool_invoke tool inp w2 = (Inr res, w3)"
  then have reg: "map_of ts t = Some tool" and inv: "tool_invoke tool inp w2 = (Inr res, w3)"
    by simp_all
  note b = loop_body_tool_registered [OF assms reg inv, of p]
  show "\<exists>s'. loop_body env a p s = (Continue, s') \<and>
                   last (steps s') =
                     ''Observation: '' @ ''Tool Response:\<newline>'' @ py_str env res \<and>
                   calls s' = calls s @ [ModelCall ms, ToolCall t inp] \<and>
                   messages s' = Chat_update env p (steps s') ms \<and>
                   (i \<le> iterations a \<longrightarrow>
                      invoke_loop env a p i s = invoke_loop env a p (i + 1) s')"
    by (rule exI, intro conjI, rule b) (simp_all add: invoke_loop_continue [OF _ b])
next
  assume un: "map_of ts t = None"
  note b = loop_body_tool_unknown [OF assms un, of p]
  have j: "join '', '' (map fst ts) =
             (case map fst ts of [] \<Rightarrow> [] | n # ns \<Rightarrow> n @ concat (map (\<lambda>x. '', '' @ x) ns))"
    by (rule join_concat)
  show "\<exists>s'. loop_body env a p s = (Continue, s') \<and>
                   last (steps s') =
                     ''Observation: '' @ t @ '' tool doesn't exist. Try one of these tools: '' @
                       (case map fst ts of
                          [] \<Rightarrow> []
                        | n # ns \<Rightarrow> n @ concat (map (\<lambda>x. '', '' @ x) ns)) \<and>
                   calls s' = calls s @ [ModelCall ms] \<and>
                   messages s' = Chat_update env p (steps s') ms \<and>
                   (i \<le> iterations a \<longrightarrow>
                      invoke_loop env a p i s = invoke_loop env a p (i + 1) s')"
    unfolding j [symmetric]
    by (rule exI, intro conjI, rule b) (simp_all add: invoke_loop_continue [OF _ b])
qed

theorem tool_dispatch_observation_witness:
  "tools (ex_agent (Inr (LLMToolUse ''look it up'' ''search'' (PyStr ''cats'')))
            (Some [(''search'', ex_tool)])) = Some [(''search'', ex_tool)] \<and>
   fst (loop_body ex_env
          (ex_agent (Inr (LLMToolUse ''look it up'' ''search'' (PyStr ''cats'')))
             (Some [(''search'', ex_tool)]))
          ''Question''
          (start_run
             (ex_agent (Inr (LLMToolUse ''look it up'' ''search'' (PyStr ''cats'')))
                (Some [(''search'', ex_tool)]))
             ''Question'' ())) = Continue \<and>
   last (steps (snd (loop_body ex_env
          (ex_agent (Inr (LLMToolUse ''look it up'' ''search'' (PyStr ''cats'')))
             (Some [(''search'', ex_tool)]))
          ''Question''
          (start_run
             (ex_agent (Inr (LLMToolUse ''look it up'' ''search'' (PyStr ''cats'')))
                (Some [(''search'', ex_tool)]))
             ''Question'' ()))))
     = ''Observation: Tool Response:\<newline>found'' \<and>
   fst (loop_body ex_env
          (ex_agent (Inr (LLMToolUse ''compute it'' ''calculator'' (PyStr ''1 + 1'')))
             (Some [(''search'', ex_tool), (''lookup'', ex_tool)]))
          ''Question''
          (start_run
             (ex_agent (Inr (LLMToolUse ''compute it'' ''calculator'' (PyStr ''1 + 1'')))
                (Some [(''search'', ex_tool), (''lookup'', ex_tool)]))
             ''Question'' ())) = Continue \<and>
   last (steps (snd (loop_body ex_env
          (ex_agent (Inr (LLMToolUse ''compute it'' ''calculator'' (PyStr ''1 + 1'')))
             (Some [(''search'', ex_tool), (''lookup'', ex_tool)]))
          ''Question''
          (start_run
             (ex_agent (Inr (LLMToolUse ''compute it'' ''calculator'' (PyStr ''1 + 1'')))
                (Some [(''search'', ex_tool), (''lookup'', ex_tool)]))
             ''Question'' ()))))
     = ''Observation: calculator tool doesn't exist. Try one of these tools: search, lookup''"
  using tool_dispatch_observation
    [of ex_env "ex_agent (Inr (LLMToolUse ''look it up'' ''search'' (PyStr ''cats'')))
                  (Some [(''search'', ex_tool)])"
        "start_run (ex_agent (Inr (LLMToolUse ''look it up'' ''search'' (PyStr ''cats'')))
                  (Some [(''search'', ex_tool)])) ''Question'' ()"
        "[\<lparr>role = SYSTEM, content = ''sys''\<rparr>, \<lparr>role = USER, content = ''Question''\<rparr>]"
        "''raw output''" "()" "''look it up''" "''search''" "PyStr ''cats''" "()"
        "[(''search'', ex_tool)]" "''Question''" 0]
    tool_dispatch_observation
    [of ex_env "ex_agent (Inr (LLMToolUse ''compute it'' ''calculator'' (PyStr ''1 + 1'')))
                  (Some [(''search'', ex_tool), (''lookup'', ex_tool)])"
        "start_run (ex_agent (Inr (LLMToolUse ''compute it'' ''calculator'' (PyStr ''1 + 1'')))
                  (Some [(''search'', ex_tool), (''lookup'', ex_tool)])) ''Question'' ()"
        "[\<lparr>role = SYSTEM, content = ''sys''\<rparr>, \<lparr>role = USER, content = ''Question''\<rparr>]"
        "''raw output''" "()" "''compute it''" "''calculator''" "PyStr ''1 + 1''" "()"
        "[(''search'', ex_tool), (''lookup'', ex_tool)]" "''Question''" 0]
  by (auto simp: ex_simps ex_tool_sel)

subsection \<open>Termination and the outcome of a call\<close>








subsection \<open>The chain of thought\<close>

lemma invoke_loop_output:
  "fst (invoke_loop env a p i s) = FINAL_ANSWER_REACHED ou \<or>
   fst (invoke_loop env a p i s) = BUDGET_EXHAUSTED ou \<Longrightarrow>
     output_prompt ou = p \<and> (\<exists>xs. output_chain_of_thought ou = chain_of_thought s @ xs)"
proof (induction env a p i s rule: invoke_loop.induct)
  case (1 env a p i s)
  show ?case
  proof (cases "i \<le> iterations a")
    case False
    with "1.prems" show ?thesis
      by (auto simp: invoke_loop_exhausted split: sum.splits)
  next
    case True
    obtain f s' where b: "loop_body env a p s = (f, s')" by (cases "loop_body env a p s")
    from loop_body_cot_prefix [OF b] obtain ys
      where ys: "chain_of_thought s' = chain_of_thought s @ ys" by blast
    show ?thesis
    proof (cases f)
      case Continue
      with True b have eq: "invoke_loop env a p i s = invoke_loop env a p (i + 1) s'"
        by (simp add: invoke_loop_step)
      from "1.IH" [OF True b [symmetric]] Continue "1.prems" eq
      have "output_prompt ou = p \<and> (\<exists>xs. output_chain_of_thought ou = chain_of_thought s' @ xs)"
        by simp
      with ys show ?thesis by auto
    next
      case (Return r)
      with True b have "invoke_loop env a p i s = (FINAL_ANSWER_REACHED r, s')"
        by (simp add: invoke_loop_step)
      with "1.prems" have "r = ou" by simp
      with loop_body_return [of env a p s ou s'] b Return ys show ?thesis by auto
    next
      case (Raise e)
      with True b have "invoke_loop env a p i s = (Raised e, s')"
        by (simp add: invoke_loop_step)
      with "1.prems" show ?thesis by simp
    qed
  qed
qed

lemma invoke_output_starts_with_prompt:
  assumes "fst (invoke env a inputs w) = FINAL_ANSWER_REACHED ou \<or>
           fst (invoke env a inputs w) = BUDGET_EXHAUSTED ou"
  shows "output_chain_of_thought ou \<noteq> [] \<and>
         output_chain_of_thought ou ! 0 = ReasoningStep PROMPT (Text (output_prompt ou))"
proof (cases "py_format env (prompt a) (prompt_kwargs a inputs)")
  case (Inl e)
  with assms show ?thesis by (simp add: invoke_def)
next
  case (Inr p)
  with assms have "fst (invoke_loop env a p 0 (start_run a p w)) = FINAL_ANSWER_REACHED ou \<or>
                   fst (invoke_loop env a p 0 (start_run a p w)) = BUDGET_EXHAUSTED ou"
    by (simp add: invoke_def)
  from invoke_loop_output [OF this] show ?thesis
    by (auto simp: start_run_def)
qed

lemma after_parse_return_only:
  "after_parse env a p out obs s = (Return r, s') \<Longrightarrow>
     \<exists>th fa. out = Some (LLMFinalAnswer th fa) \<and>
       new_AgentOutput env p fa
         (chain_of_thought s @
            [ReasoningStep THOUGHT (Text th),
             ReasoningStep FINAL_ANSWER (Text (py_str env fa))]) = Inr r"
  by (auto simp: after_parse_def observe_def Let_def
           split: prod.splits option.splits sum.splits LLMOutput.splits)

lemma loop_body_return_only:
  assumes "loop_body env a p s = (Return r, s')"
  shows "\<exists>ms raw w1 th fa w2.
           trim_conversation (encode env) (llm a) (messages s) = (None, ms) \<and>
           get_completion (llm a) ms (world s) = (Inr raw, w1) \<and>
           parse (output_parser a) raw w1 = (Inr (LLMFinalAnswer th fa), w2) \<and>
           new_AgentOutput env p fa
             (chain_of_thought s @
                [ReasoningStep THOUGHT (Text th),
                 ReasoningStep FINAL_ANSWER (Text (py_str env fa))]) = Inr r"
proof -
  obtain e ms where tr: "trim_conversation (encode env) (llm a) (messages s) = (e, ms)"
    by (cases "trim_conversation (encode env) (llm a) (messages s)")
  obtain c w1 where co: "get_completion (llm a) ms (world s) = (c, w1)"
    by (cases "get_completion (llm a) ms (world s)")
  from assms tr have e: "e = None"
    by (cases e) (simp_all add: loop_body_def)
  from assms tr co e obtain raw where c: "c = Inr raw"
    by (cases c) (simp_all add: loop_body_def)
  obtain q w2 where pa: "parse (output_parser a) raw w1 = (q, w2)"
    by (cases "parse (output_parser a) raw w1")
  from assms tr co e c pa obtain ou where q: "q = Inr ou"
    by (cases q) (auto simp: loop_body_def parse_output_def after_parse_def observe_def
                       split: error.splits)
  from assms have "after_parse env a p (Some ou) ObsNone
                     (s\<lparr>messages := ms, world := w2, calls := calls s @ [ModelCall ms]\<rparr>)
                   = (Return r, s')"
    using loop_body_parsed [OF tr [unfolded e] co [unfolded c] pa [unfolded q], of p] by simp
  from after_parse_return_only [OF this] obtain th fa
    where "ou = LLMFinalAnswer th fa"
      and "new_AgentOutput env p fa
             (chain_of_thought s @
                [ReasoningStep THOUGHT (Text th),
                 ReasoningStep FINAL_ANSWER (Text (py_str env fa))]) = Inr r"
    by auto
  with tr co pa e c q show ?thesis by blast
qed

text \<open>
  C7, amended. The chain of thought of every returned output starts with the prompt
  step. In a turn where the model answers: a tool use appends one thought step, followed by
  one tool step when the tool is registered and returns a result, and by nothing when the
  tool raises, when the name is not registered or when the agent has no tools. A final
  answer appends a thought step and a final-answer step and appends the assistant message
  with the printed answer; then the output is built and the loop returns at once when the
  answer is of one of the types of \<^verbatim>\<open>AgentOutput.final_answer\<close>, and otherwise
  the validation decides between returning the converted answer and raising. A turn
  returns only after a trim and a completion that succeeded and a final answer of the
  parser for that completion.
\<close>

theorem chain_of_thought_steps:
  "(fst (invoke env a inputs w) = FINAL_ANSWER_REACHED ou \<or>
    fst (invoke env a inputs w) = BUDGET_EXHAUSTED ou \<longrightarrow>
      output_chain_of_thought ou \<noteq> [] \<and>
      output_chain_of_thought ou ! 0 = ReasoningStep PROMPT (Text (output_prompt ou))) \<and>
   (trim_conversation (encode env) (llm a) (messages s) = (None, ms) \<and>
    get_completion (llm a) ms (world s) = (Inr raw, w1) \<longrightarrow>
      (\<forall>th t inp w2. parse (output_parser a) raw w1 = (Inr (LLMToolUse th t inp), w2) \<longrightarrow>
         (\<forall>ts tool res w3.
            tools a = Some ts \<and> map_of ts t = Some tool \<and>
            tool_invoke tool inp w2 = (Inr res, w3) \<longrightarrow>
              chain_of_thought (snd (loop_body env a p s)) =
                chain_of_thought s @
                  [ReasoningStep THOUGHT (Text th),
                   ReasoningStep TOOL (ToolContent (ReasoningStepTool t inp res))]) \<and>
         (\<forall>ts tool e w3.
            tools a = Some ts \<and> map_of ts t = Some tool \<and>
            tool_invoke tool inp w2 = (Inl e, w3) \<longrightarrow>
              chain_of_thought (snd (loop_body env a p s)) =
                chain_of_thought s @ [ReasoningStep THOUGHT (Text th)]) \<and>
         (tools a = None \<or> (\<exists>ts. tools a = Some ts \<and> map_of ts t = None) \<longrightarrow>
              chain_of_thought (snd (loop_body env a p s)) =
                chain_of_thought s @ [ReasoningStep THOUGHT (Text th)])) \<and>
      (\<forall>th fa w2. parse (output_parser a) raw w1 = (Inr (LLMFinalAnswer th fa), w2) \<longrightarrow>
         chain_of_thought (snd (loop_body env a p s)) =
           chain_of_thought s @
             [ReasoningStep THOUGHT (Text th),
              ReasoningStep FINAL_ANSWER (Text (py_str env fa))] \<and>
         messages (snd (loop_body env a p s)) =
           ms @ [\<lparr>role = ASSISTANT, content = py_str env fa\<rparr>] \<and>
         (strict_final_answer fa \<longrightarrow>
            fst (loop_body env a p s) =
              Return (AgentOutput p fa
                        (chain_of_thought s @
                           [ReasoningStep THOUGHT (Text th),
                            ReasoningStep FINAL_ANSWER (Text (py_str env fa))])) \<and>
            (i \<le> iterations a \<longrightarrow>
               invoke_loop env a p i s =
                 (FINAL_ANSWER_REACHED
                    (AgentOutput p fa
                       (chain_of_thought s @
                          [ReasoningStep THOUGHT (Text th),
                           ReasoningStep FINAL_ANSWER (Text (py_str env fa))])),
                  snd (loop_body env a p s)))) \<and>
         (\<not> strict_final_answer fa \<longrightarrow>
            fst (loop_body env a p s) =
              (case lax_validate env fa of
                 Inl e \<Rightarrow> Raise e
               | Inr fa' \<Rightarrow>
                   Return (AgentOutput p fa'
                             (chain_of_thought s @
                                [ReasoningStep THOUGHT (Text th),
                                 ReasoningStep FINAL_ANSWER (Text (py_str env fa))])))))) \<and>
   (\<forall>r s'. loop_body env a p s = (Return r, s') \<longrightarrow>
      (\<exists>ms' raw' w1' th fa w2.
         trim_conversation (encode env) (llm a) (messages s) = (None, ms') \<and>
         get_completion (llm a) ms' (world s) = (Inr raw', w1') \<and>
         parse (output_parser a) raw' w1' = (Inr (LLMFinalAnswer th fa), w2) \<and>
         new_AgentOutput env p fa
           (chain_of_thought s @
              [ReasoningStep THOUGHT (Text th),
               ReasoningStep FINAL_ANSWER (Text (py_str env fa))]) = Inr r))"
proof (intro conjI allI impI; (elim conjE)?)
  assume "fst (invoke env a inputs w) = FINAL_ANSWER_REACHED ou \<or>
          fst (invoke env a inputs w) = BUDGET_EXHAUSTED ou"
  from invoke_output_starts_with_prompt [OF this]
  show "output_chain_of_thought ou \<noteq> []"
    and "output_chain_of_thought ou ! 0 = ReasoningStep PROMPT (Text (output_prompt ou))"
    by simp_all
next
  fix th t inp w2 ts tool res w3
  assume "trim_conversation (encode env) (llm a) (messages s) = (None, ms)"
    and "get_completion (llm a) ms (world s) = (Inr raw, w1)"
    and "parse (output_parser a) raw w1 = (Inr (LLMToolUse th t inp), w2)"
    and "tools a = Some ts" and "map_of ts t = Some tool"
    and "tool_invoke tool inp w2 = (Inr res, w3)"
  from loop_body_tool_registered [OF this, of p]
  show "chain_of_thought (snd (loop_body env a p s)) =
                chain_of_thought s @
                  [ReasoningStep THOUGHT (Text th),
                   ReasoningStep TOOL (ToolContent (ReasoningStepTool t inp res))]"
    by simp
next
  fix th t inp w2 ts tool e w3
  assume "trim_conversation (encode env) (llm a) (messages s) = (None, ms)"
    and "get_completion (llm a) ms (world s) = (Inr raw, w1)"
    and "parse (output_parser a) raw w1 = (Inr (LLMToolUse th t inp), w2)"
    and "tools a = Some ts" and "map_of ts t = Some tool"
    and "tool_invoke tool inp w2 = (Inl e, w3)"
  from loop_body_tool_raises [OF this, of p]
  show "chain_of_thought (snd (loop_body env a p s)) =
                chain_of_thought s @ [ReasoningStep THOUGHT (Text th)]"
    by simp
next
  fix th t inp w2
  assume tr: "trim_conversation (encode env) (llm a) (messages s) = (None, ms)"
    and co: "get_completion (llm a) ms (world s) = (Inr raw, w1)"
    and prs: "parse (output_parser a) raw w1 = (Inr (LLMToolUse th t inp), w2)"
    and "tools a = None \<or> (\<exists>ts. tools a = Some ts \<and> map_of ts t = None)"
  then show "chain_of_thought (snd (loop_body env a p s)) =
                   chain_of_thought s @ [ReasoningStep THOUGHT (Text th)]"
    using loop_body_no_tools [OF tr co prs, of p] loop_body_tool_unknown [OF tr co prs, of _ p]
    by auto
next
  fix th fa w2
  assume tr: "trim_conversation (encode env) (llm a) (messages s) = (None, ms)"
    and co: "get_completion (llm a) ms (world s) = (Inr raw, w1)"
    and prs: "parse (output_parser a) raw w1 = (Inr (LLMFinalAnswer th fa), w2)"
  note b = loop_body_final_answer [OF tr co prs, of p]
  show "chain_of_thought (snd (loop_body env a p s)) =
              chain_of_thought s @
                [ReasoningStep THOUGHT (Text th),
                 ReasoningStep FINAL_ANSWER (Text (py_str env fa))]"
    using b by simp
  show "messages (snd (loop_body env a p s)) =
              ms @ [\<lparr>role = ASSISTANT, content = py_str env fa\<rparr>]"
    using b by simp
  {
    assume st: "strict_final_answer fa"
    show "fst (loop_body env a p s) =
              Return (AgentOutput p fa
                        (chain_of_thought s @
                           [ReasoningStep THOUGHT (Text th),
                            ReasoningStep FINAL_ANSWER (Text (py_str env fa))]))"
      using b st by (simp add: new_AgentOutput_strict)
    assume "i \<le> iterations a"
    then show "invoke_loop env a p i s =
                 (FINAL_ANSWER_REACHED
                    (AgentOutput p fa
                       (chain_of_thought s @
                          [ReasoningStep THOUGHT (Text th),
                           ReasoningStep FINAL_ANSWER (Text (py_str env fa))])),
                  snd (loop_body env a p s))"
      using b st by (simp add: new_AgentOutput_strict invoke_loop_return)
  }
  assume "\<not> strict_final_answer fa"
  then show "fst (loop_body env a p s) =
              (case lax_validate env fa of
                 Inl e \<Rightarrow> Raise e
               | Inr fa' \<Rightarrow>
                   Return (AgentOutput p fa'
                             (chain_of_thought s @
                                [ReasoningStep THOUGHT (Text th),
                                 ReasoningStep FINAL_ANSWER (Text (py_str env fa))])))"
    using b by (simp add: new_AgentOutput_def split: sum.splits)
next
  fix r s'
  assume "loop_body env a p s = (Return r, s')"
  then show "\<exists>ms' raw' w1' th fa w2.
         trim_conversation (encode env) (llm a) (messages s) = (None, ms') \<and>
         get_completion (llm a) ms' (world s) = (Inr raw', w1') \<and>
         parse (output_parser a) raw' w1' = (Inr (LLMFinalAnswer th fa), w2) \<and>
         new_AgentOutput env p fa
           (chain_of_thought s @
              [ReasoningStep THOUGHT (Text th),
               ReasoningStep FINAL_ANSWER (Text (py_str env fa))]) = Inr r"
    by (rule loop_body_return_only)
qed

text \<open>
  C7, as stated, fails for a tool use that names a tool which is not registered: the
  turn appends the thought step and no tool step.
\<close>

theorem tool_step_missing_counterexample:
  "chain_of_thought (snd (loop_body ex_env
      (ex_agent (Inr (LLMToolUse ''compute it'' ''calculator'' (PyStr ''1 + 1'')))
         (Some [(''search'', ex_tool)]))
      ''Question''
      (start_run
         (ex_agent (Inr (LLMToolUse ''compute it'' ''calculator'' (PyStr ''1 + 1'')))
            (Some [(''search'', ex_tool)]))
         ''Question'' ())))
   = [ReasoningStep PROMPT (Text ''Question''), ReasoningStep THOUGHT (Text ''compute it'')]"
  by (simp add: loop_body_def parse_output_def after_parse_def use_tool_def observe_def ex_simps)

theorem chain_of_thought_steps_witness:
  "trim_conversation (encode ex_env)
      (llm (ex_agent (Inr (LLMFinalAnswer ''easy'' (PyStr ''42''))) None))
      (messages (start_run (ex_agent (Inr (LLMFinalAnswer ''easy'' (PyStr ''42''))) None)
                   ''Question'' ()))
     = (None, [\<lparr>role = SYSTEM, content = ''sys''\<rparr>, \<lparr>role = USER, content = ''Question''\<rparr>]) \<and>
   get_completion (llm (ex_agent (Inr (LLMFinalAnswer ''easy'' (PyStr ''42''))) None))
      [\<lparr>role = SYSTEM, content = ''sys''\<rparr>, \<lparr>role = USER, content = ''Question''\<rparr>]
      (world (start_run (ex_agent (Inr (LLMFinalAnswer ''easy'' (PyStr ''42''))) None)
                ''Question'' ()))
     = (Inr ''raw output'', ()) \<and>
   fst (loop_body ex_env (ex_agent (Inr (LLMFinalAnswer ''easy'' (PyStr ''42''))) None)
          ''Question''
          (start_run (ex_agent (Inr (LLMFinalAnswer ''easy'' (PyStr ''42''))) None)
             ''Question'' ()))
     = Return (AgentOutput ''Question'' (PyStr ''42'')
                 [ReasoningStep PROMPT (Text ''Question''),
                  ReasoningStep THOUGHT (Text ''easy''),
                  ReasoningStep FINAL_ANSWER (Text ''42'')]) \<and>
   fst (loop_body ex_env (ex_agent (Inr (LLMFinalAnswer ''easy'' (PyList [PyNone]))) None)
          ''Question''
          (start_run (ex_agent (Inr (LLMFinalAnswer ''easy'' (PyList [PyNone]))) None)
             ''Question'' ()))
     = Raise (ValueError ''validation error for AgentOutput'')"
  using chain_of_thought_steps
    [where env = ex_env and a = "ex_agent (Inr (LLMFinalAnswer ''easy'' (PyStr ''42''))) None"
       and s = "start_run (ex_agent (Inr (LLMFinalAnswer ''easy'' (PyStr ''42''))) None)
                  ''Question'' ()"
       and ms = "[\<lparr>role = SYSTEM, content = ''sys''\<rparr>, \<lparr>role = USER, content = ''Question''\<rparr>]"
       and raw = "''raw output''" and ?w1.0 = "()" and p = "''Question''" and i = 0]
    chain_of_thought_steps
    [where env = ex_env
       and a = "ex_agent (Inr (LLMFinalAnswer ''easy'' (PyList [PyNone]))) None"
       and s = "start_run (ex_agent (Inr (LLMFinalAnswer ''easy'' (PyList [PyNone]))) None)
                  ''Question'' ()"
       and ms = "[\<lparr>role = SYSTEM, content = ''sys''\<rparr>, \<lparr>role = USER, content = ''Question''\<rparr>]"
       and raw = "''raw output''" and ?w1.0 = "()" and p = "''Question''" and i = 0]
  by (simp add: ex_simps)

subsection \<open>The fallback answer\<close>

lemma dict_set_keys:
  "fst ` set (dict_set d k v) = insert k (fst ` set d)"
  by (induction d k v rule: dict_set.induct) auto

lemma dict_set_values:
  "snd ` set (dict_set d k v) \<subseteq> insert v (snd ` set d)"
  by (induction d k v rule: dict_set.induct) auto

lemma dict_set_new:
  "k \<notin> fst ` set d \<Longrightarrow> dict_set d k v = d @ [(k, v)]"
  by (induction d k v rule: dict_set.induct) auto

lemma null_fold_keys:
  "fst ` set (foldl (\<lambda>d x. dict_set d x PyNone) d ks) = fst ` set d \<union> set ks"
  by (induction ks arbitrary: d) (auto simp: dict_set_keys)

lemma null_fold_values:
  "snd ` set d \<subseteq> {PyNone} \<Longrightarrow>
     snd ` set (foldl (\<lambda>d x. dict_set d x PyNone) d ks) \<subseteq> {PyNone}"
proof (induction ks arbitrary: d)
  case Nil
  then show ?case by simp
next
  case (Cons k ks)
  from dict_set_values [of d k PyNone] Cons.prems
  have "snd ` set (dict_set d k PyNone) \<subseteq> {PyNone}" by auto
  from Cons.IH [OF this] show ?case by simp
qed

lemma null_fold_distinct:
  "distinct (xs @ ks) \<Longrightarrow>
     foldl (\<lambda>d x. dict_set d x PyNone) (map (\<lambda>k. (k, PyNone)) xs) ks
       = map (\<lambda>k. (k, PyNone)) (xs @ ks)"
proof (induction ks arbitrary: xs)
  case Nil
  then show ?case by simp
next
  case (Cons k ks)
  from Cons.prems have "k \<notin> fst ` set (map (\<lambda>k. (k, PyNone)) xs)"
    by (auto simp: image_iff)
  then have "dict_set (map (\<lambda>k. (k, PyNone)) xs) k PyNone = map (\<lambda>k. (k, PyNone)) (xs @ [k])"
    by (simp add: dict_set_new)
  moreover from Cons.prems have "distinct ((xs @ [k]) @ ks)" by simp
  ultimately show ?case using Cons.IH [of "xs @ [k]"] by simp
qed

lemma null_mapping_shape:
  "fst ` set (null_mapping ks) = set ks \<and> snd ` set (null_mapping ks) \<subseteq> {PyNone} \<and>
   (distinct ks \<longrightarrow> null_mapping ks = map (\<lambda>k. (k, PyNone)) ks)"
  using null_fold_keys [of "[]" ks] null_fold_values [of "[]" ks] null_fold_distinct [of "[]" ks]
  by (simp add: null_mapping_def dict_comp_def)

lemma invoke_loop_exhausted_answer:
  "fst (invoke_loop env a p i s) = BUDGET_EXHAUSTED ou \<Longrightarrow>
     fallback_answer (output_parser a) = Inr (final_answer ou)"
proof (induction env a p i s rule: invoke_loop.induct)
  case (1 env a p i s)
  show ?case
  proof (cases "i \<le> iterations a")
    case False
    with "1.prems" show ?thesis
      by (auto simp: invoke_loop_exhausted split: sum.splits)
  next
    case True
    obtain f s' where b: "loop_body env a p s = (f, s')" by (cases "loop_body env a p s")
    show ?thesis
    proof (cases f)
      case Continue
      with True b have "invoke_loop env a p i s = invoke_loop env a p (i + 1) s'"
        by (simp add: invoke_loop_step)
      with "1.IH" [OF True b [symmetric]] Continue "1.prems" show ?thesis by simp
    next
      case (Return r)
      with True b "1.prems" show ?thesis by (simp add: invoke_loop_step)
    next
      case (Raise e)
      with True b "1.prems" show ?thesis by (simp add: invoke_loop_step)
    qed
  qed
qed

lemma invoke_exhausted_answer:
  assumes "fst (invoke env a inputs w) = BUDGET_EXHAUSTED ou"
  shows "fallback_answer (output_parser a) = Inr (final_answer ou)"
proof (cases "py_format env (prompt a) (prompt_kwargs a inputs)")
  case (Inl e)
  with assms show ?thesis by (simp add: invoke_def)
next
  case (Inr p)
  with assms have "fst (invoke_loop env a p 0 (start_run a p w)) = BUDGET_EXHAUSTED ou"
    by (simp add: invoke_def)
  then show ?thesis by (rule invoke_loop_exhausted_answer)
qed

lemma fallback_answer_struct:
  "output_type op = STRUCT \<Longrightarrow> object_schema op = Some (SchemaClass c) \<Longrightarrow>
     fallback_answer op = Inr (PyDict (null_mapping (properties c)))"
  by (simp add: fallback_answer_def schema_class_def)

lemma fallback_answer_array_struct:
  "output_type op = ARRAY_STRUCT \<Longrightarrow> object_schema op = Some (SchemaClass c) \<Longrightarrow>
     fallback_answer op = Inr (PyList [PyDict (null_mapping (properties c))])"
  by (simp add: fallback_answer_def schema_class_def)

lemma fallback_answer_plain:
  "output_type op \<notin> {STRUCT, ARRAY_STRUCT, OBJECT, ARRAY_OBJECT} \<Longrightarrow>
     fallback_answer op = Inr PyNone"
  by (simp add: fallback_answer_def)

text \<open>
  C6. When the budget of iterations is used up (the loop test fails), the code after the
  loop returns the output whose final answer has the declared shape with \<^verbatim>\<open>None\<close>
  in it: for a structured object with a schema class the mapping of the schema's property
  names to \<^verbatim>\<open>None\<close>, for a list of structured objects the list with that one
  mapping, and \<^verbatim>\<open>None\<close> for every type that is neither structured nor an object;
  the chain of thought and the state are those the loop left. Conversely, whenever
  \<^verbatim>\<open>invoke\<close> ends with this return, the final answer is of that shape. The mapping
  has exactly the given names as keys and only \<^verbatim>\<open>None\<close> as value; for distinct
  names it lists them in their order.
\<close>

theorem fallback_answer_shape:
  "(\<not> i \<le> iterations a \<longrightarrow>
      (output_type (output_parser a) = STRUCT \<and>
       object_schema (output_parser a) = Some (SchemaClass c) \<longrightarrow>
         invoke_loop env a p i s =
           (BUDGET_EXHAUSTED
              (AgentOutput p (PyDict (null_mapping (properties c))) (chain_of_thought s)), s)) \<and>
      (output_type (output_parser a) = ARRAY_STRUCT \<and>
       object_schema (output_parser a) = Some (SchemaClass c) \<longrightarrow>
         invoke_loop env a p i s =
           (BUDGET_EXHAUSTED
              (AgentOutput p (PyList [PyDict (null_mapping (properties c))])
                 (chain_of_thought s)), s)) \<and>
      (output_type (output_parser a) \<notin> {STRUCT, ARRAY_STRUCT, OBJECT, ARRAY_OBJECT} \<longrightarrow>
         invoke_loop env a p i s =
           (BUDGET_EXHAUSTED (AgentOutput p PyNone (chain_of_thought s)), s))) \<and>
   (fst (invoke env a inputs w) = BUDGET_EXHAUSTED ou \<longrightarrow>
      (output_type (output_parser a) = STRUCT \<longrightarrow>
         (\<exists>c. object_schema (output_parser a) = Some (SchemaClass c) \<and>
              final_answer ou = PyDict (null_mapping (properties c)))) \<and>
      (output_type (output_parser a) = ARRAY_STRUCT \<longrightarrow>
         (\<exists>c. object_schema (output_parser a) = Some (SchemaClass c) \<and>
              final_answer ou = PyList [PyDict (null_mapping (properties c))])) \<and>
      (output_type (output_parser a) \<notin> {STRUCT, ARRAY_STRUCT, OBJECT, ARRAY_OBJECT} \<longrightarrow>
         final_answer ou = PyNone)) \<and>
   (\<forall>ks. fst ` set (null_mapping ks) = set ks \<and>
         snd ` set (null_mapping ks) \<subseteq> {PyNone} \<and>
         (distinct ks \<longrightarrow> null_mapping ks = map (\<lambda>k. (k, PyNone)) ks))"
proof (intro conjI impI)
  assume "\<not> i \<le> iterations a"
    and "output_type (output_parser a) = STRUCT \<and>
         object_schema (output_parser a) = Some (SchemaClass c)"
  then show "invoke_loop env a p i s =
           (BUDGET_EXHAUSTED
              (AgentOutput p (PyDict (null_mapping (properties c))) (chain_of_thought s)), s)"
    by (simp add: invoke_loop_exhausted fallback_answer_struct)
next
  assume "\<not> i \<le> iterations a"
    and "output_type (output_parser a) = ARRAY_STRUCT \<and>
         object_schema (output_parser a) = Some (SchemaClass c)"
  then show "invoke_loop env a p i s =
           (BUDGET_EXHAUSTED
              (AgentOutput p (PyList [PyDict (null_mapping (properties c))])
                 (chain_of_thought s)), s)"
    by (simp add: invoke_loop_exhausted fallback_answer_array_struct)
next
  assume "\<not> i \<le> iterations a"
    and "output_type (output_parser a) \<notin> {STRUCT, ARRAY_STRUCT, OBJECT, ARRAY_OBJECT}"
  then show "invoke_loop env a p i s =
           (BUDGET_EXHAUSTED (AgentOutput p PyNone (chain_of_thought s)), s)"
    by (simp add: invoke_loop_exhausted fallback_answer_plain)
next
  assume "fst (invoke env a inputs w) = BUDGET_EXHAUSTED ou"
    and "output_type (output_parser a) = STRUCT"
  then show "\<exists>c. object_schema (output_parser a) = Some (SchemaClass c) \<and>
              final_answer ou = PyDict (null_mapping (properties c))"
    using invoke_exhausted_answer [of env a inputs w ou]
    by (auto simp: fallback_answer_def schema_class_def
             split: option.splits schema.splits sum.splits)
next
  assume "fst (invoke env a inputs w) = BUDGET_EXHAUSTED ou"
    and "output_type (output_parser a) = ARRAY_STRUCT"
  then show "\<exists>c. object_schema (output_parser a) = Some (SchemaClass c) \<and>
              final_answer ou = PyList [PyDict (null_mapping (properties c))]"
    using invoke_exhausted_answer [of env a inputs w ou]
    by (auto simp: fallback_answer_def schema_class_def
             split: option.splits schema.splits sum.splits)
next
  assume "fst (invoke env a inputs w) = BUDGET_EXHAUSTED ou"
    and "output_type (output_parser a) \<notin> {STRUCT, ARRAY_STRUCT, OBJECT, ARRAY_OBJECT}"
  then show "final_answer ou = PyNone"
    using invoke_exhausted_answer [of env a inputs w ou]
    by (auto simp: fallback_answer_def)
next
  show "\<forall>ks. fst ` set (null_mapping ks) = set ks \<and>
         snd ` set (null_mapping ks) \<subseteq> {PyNone} \<and>
         (distinct ks \<longrightarrow> null_mapping ks = map (\<lambda>k. (k, PyNone)) ks)"
    using null_mapping_shape by blast
qed

lemma ex_struct_invoke:
  "fst (invoke ex_env ex_struct_agent no_inputs ())
     = BUDGET_EXHAUSTED
         (AgentOutput ''Question'' (PyDict [(''a'', PyNone), (''b'', PyNone)])
            [ReasoningStep PROMPT (Text ''Question'')])"
  by (simp add: invoke_def ex_struct_agent_def ex_agent_def ex_env_def start_run_def
        invoke_loop.simps loop_body_def trim_conversation.simps ex_llm_def ex_encode_def
        MODEL_TOKEN_LIMIT_def num_tokens_from_messages_def model_dump_def parse_output_def
        after_parse_def observe_def ex_update_def fallback_answer_def schema_class_def
        null_mapping_def dict_comp_def new_AgentOutput_def)

theorem fallback_answer_shape_witness:
  "fst (invoke ex_env ex_struct_agent no_inputs ())
     = BUDGET_EXHAUSTED
         (AgentOutput ''Question'' (PyDict [(''a'', PyNone), (''b'', PyNone)])
            [ReasoningStep PROMPT (Text ''Question'')]) \<and>
   output_type (output_parser ex_struct_agent) = STRUCT \<and>
   (\<exists>c. object_schema (output_parser ex_struct_agent) = Some (SchemaClass c) \<and>
        PyDict [(''a'', PyNone), (''b'', PyNone)] = PyDict (null_mapping (properties c))) \<and>
   invoke_loop ex_env ex_struct_agent ''Question'' 2
       (start_run ex_struct_agent ''Question'' ())
     = (BUDGET_EXHAUSTED
          (AgentOutput ''Question'' (PyDict [(''a'', PyNone), (''b'', PyNone)])
             [ReasoningStep PROMPT (Text ''Question'')]),
        start_run ex_struct_agent ''Question'' ())"
proof -
  note sh = fallback_answer_shape
    [where env = ex_env and a = ex_struct_agent and inputs = no_inputs and w = "()"
       and ou = "AgentOutput ''Question'' (PyDict [(''a'', PyNone), (''b'', PyNone)])
                   [ReasoningStep PROMPT (Text ''Question'')]"
       and i = 2 and p = "''Question''" and s = "start_run ex_struct_agent ''Question'' ()"
       and c = "\<lparr>class_name = ''Answer'',
                  annotations = [(''a'', EvaluatedType ''str''), (''b'', EvaluatedType ''int'')],
                  properties = [''a'', ''b'']\<rparr>"]
  have ty: "output_type (output_parser ex_struct_agent) = STRUCT"
    and sc: "object_schema (output_parser ex_struct_agent) =
               Some (SchemaClass \<lparr>class_name = ''Answer'',
                  annotations = [(''a'', EvaluatedType ''str''), (''b'', EvaluatedType ''int'')],
                  properties = [''a'', ''b'']\<rparr>)"
    and it: "\<not> 2 \<le> iterations ex_struct_agent"
    by (simp_all add: ex_struct_agent_def ex_agent_def)
  from sh ty ex_struct_invoke
  have "\<exists>c. object_schema (output_parser ex_struct_agent) = Some (SchemaClass c) \<and>
        final_answer (AgentOutput ''Question'' (PyDict [(''a'', PyNone), (''b'', PyNone)])
            [ReasoningStep PROMPT (Text ''Question'')]) = PyDict (null_mapping (properties c))"
    by blast
  then have e: "\<exists>c. object_schema (output_parser ex_struct_agent) = Some (SchemaClass c) \<and>
        PyDict [(''a'', PyNone), (''b'', PyNone)] = PyDict (null_mapping (properties c))"
    by simp
  from sh ty sc it
  have "invoke_loop ex_env ex_struct_agent ''Question'' 2
          (start_run ex_struct_agent ''Question'' ())
        = (BUDGET_EXHAUSTED
             (AgentOutput ''Question''
                (PyDict (null_mapping (properties
                   \<lparr>class_name = ''Answer'',
                    annotations = [(''a'', EvaluatedType ''str''), (''b'', EvaluatedType ''int'')],
                    properties = [''a'', ''b'']\<rparr>)))
                (chain_of_thought (start_run ex_struct_agent ''Question'' ()))),
           start_run ex_struct_agent ''Question'' ())"
    by blast
  then have l: "invoke_loop ex_env ex_struct_agent ''Question'' 2
          (start_run ex_struct_agent ''Question'' ())
        = (BUDGET_EXHAUSTED
          (AgentOutput ''Question'' (PyDict [(''a'', PyNone), (''b'', PyNone)])
             [ReasoningStep PROMPT (Text ''Question'')]),
        start_run ex_struct_agent ''Question'' ())"
    by (simp add: null_mapping_def dict_comp_def start_run_def)
  from ex_struct_invoke ty e l show ?thesis by (intro conjI)
qed

subsection \<open>Construction\<close>

text \<open>
  C8. \<^verbatim>\<open>Agent.create\<close> with an object-like output type and no output schema
  raises ValueError, whatever the other arguments are, and makes no agent.
\<close>

theorem create_requires_schema:
  assumes "ot \<in> {OBJECT, ARRAY_OBJECT}"
  shows "create lib l system_prompt template variables ot None ts strategy n =
           Inl (ValueError (''When using '' @ output_type_str lib ot @
                            '' as the output type a schema must be provided.''))"
  using assms
  by (auto simp: create_def final_answer_instructions_def split: option.splits)

theorem create_requires_schema_witness:
  "OBJECT \<in> {OBJECT, ARRAY_OBJECT} \<and>
   create ex_lib ex_llm ''You are helpful.'' ''Question'' [] OBJECT None None
     CHAIN_OF_THOUGHT default_iterations
     = Inl (ValueError ''When using object as the output type a schema must be provided.'')"
  using create_requires_schema
    [of OBJECT ex_lib ex_llm "''You are helpful.''" "''Question''" "[]" None
        CHAIN_OF_THOUGHT default_iterations]
  by (simp add: ex_lib_def)

subsection \<open>The message log across calls\<close>








lemma after_parse_return_message:
  "after_parse env a p out obs s = (Return ou, s') \<Longrightarrow>
     \<exists>fa cot. new_AgentOutput env p fa cot = Inr ou \<and> messages s' \<noteq> [] \<and>
       last (messages s') = \<lparr>role = ASSISTANT, content = py_str env fa\<rparr>"
  by (auto simp: after_parse_def observe_def Let_def
           split: prod.splits option.splits sum.splits LLMOutput.splits)

lemma loop_body_return_message:
  "loop_body env a p s = (Return ou, s') \<Longrightarrow>
     \<exists>fa cot. new_AgentOutput env p fa cot = Inr ou \<and> messages s' \<noteq> [] \<and>
       last (messages s') = \<lparr>role = ASSISTANT, content = py_str env fa\<rparr>"
  by (auto simp: loop_body_def parse_output_def dest!: after_parse_return_message
           split: prod.splits option.splits sum.splits error.splits)

lemma invoke_loop_final_message:
  "invoke_loop env a p i s = (FINAL_ANSWER_REACHED ou, s') \<Longrightarrow>
     \<exists>fa cot. new_AgentOutput env p fa cot = Inr ou \<and> messages s' \<noteq> [] \<and>
       last (messages s') = \<lparr>role = ASSISTANT, content = py_str env fa\<rparr>"
proof (induction env a p i s rule: invoke_loop.induct)
  case (1 env a p i s)
  show ?case
  proof (cases "i \<le> iterations a")
    case False
    with "1.prems" show ?thesis by (auto simp: invoke_loop_exhausted split: sum.splits)
  next
    case True
    obtain f s1 where b: "loop_body env a p s = (f, s1)" by (cases "loop_body env a p s")
    show ?thesis
    proof (cases f)
      case Continue
      with True b have "invoke_loop env a p i s = invoke_loop env a p (i + 1) s1"
        by (simp add: invoke_loop_step)
      with "1.IH" [OF True b [symmetric]] Continue "1.prems" show ?thesis by simp
    next
      case (Return r)
      with True b "1.prems" have "r = ou" "s1 = s'" by (simp_all add: invoke_loop_step)
      with loop_body_return_message [of env a p s ou s'] b Return show ?thesis by simp
    next
      case (Raise e)
      with True b "1.prems" show ?thesis by (simp add: invoke_loop_step)
    qed
  qed
qed












subsection \<open>Outputs are validated\<close>

text \<open>
  The types that \<^verbatim>\<open>AgentOutput.final_answer\<close> admits as they stand, on examples:
  lists of texts, of integers, of mappings and of model instances, and the empty list, but
  no list of \<^verbatim>\<open>None\<close>, no mixed list and no nested list.
\<close>

lemma strict_final_answer_examples:
  "strict_final_answer PyNone" "strict_final_answer (PyStr ''a'')"
  "strict_final_answer (PyInt 1)" "strict_final_answer (PyDict [(''a'', PyNone)])"
  "strict_final_answer (PyModel ''Answer'' [(''a'', PyNone)])"
  "strict_final_answer (PyList [])"
  "strict_final_answer (PyList [PyStr ''a'', PyStr ''b''])"
  "strict_final_answer (PyList [PyInt 1, PyInt 2])"
  "strict_final_answer (PyList [PyDict [], PyDict [(''a'', PyInt 1)]])"
  "strict_final_answer (PyList [PyModel ''Answer'' []])"
  "\<not> strict_final_answer (PyList [PyNone])"
  "\<not> strict_final_answer (PyList [PyStr ''a'', PyInt 1])"
  "\<not> strict_final_answer (PyList [PyList []])"
  by simp_all

text \<open>
  The fallback for the object types, on examples: a class with evaluated annotations
  gives the instance with \<^verbatim>\<open>None\<close> in every field, a class with a postponed
  annotation makes the fallback raise TypeError.
\<close>

lemma fallback_answer_object_examples:
  "fallback_answer
     \<lparr>output_type = OBJECT,
      output_schema = Some (SchemaClass
        \<lparr>class_name = ''Answer'',
         annotations = [(''a'', EvaluatedType ''str''), (''b'', EvaluatedType ''int'')],
         properties = [''a'', ''b'']\<rparr>),
      object_schema = None, parse = prs\<rparr>
   = Inr (PyModel ''Answer'' [(''a'', PyNone), (''b'', PyNone)])"
  "fallback_answer
     \<lparr>output_type = ARRAY_OBJECT,
      output_schema = Some (SchemaClass
        \<lparr>class_name = ''Answer'',
         annotations = [(''a'', EvaluatedType ''str''), (''b'', PostponedType ''int'')],
         properties = [''a'', ''b'']\<rparr>),
      object_schema = None, parse = prs\<rparr>
   = Inl (TypeError ''unsupported operand type(s) for |: str and NoneType'')"
  by (simp_all add: fallback_answer_def schema_class_def null_mapping_def dict_comp_def)

text \<open>Every output that the loop returns has passed the validation.\<close>

lemma invoke_loop_output_validated:
  assumes "fst (invoke_loop env a p i s) = FINAL_ANSWER_REACHED ou \<or>
           fst (invoke_loop env a p i s) = BUDGET_EXHAUSTED ou"
  shows "\<exists>fa cot. new_AgentOutput env p fa cot = Inr ou"
  using assms
proof
  assume "fst (invoke_loop env a p i s) = FINAL_ANSWER_REACHED ou"
  then have "invoke_loop env a p i s = (FINAL_ANSWER_REACHED ou, snd (invoke_loop env a p i s))"
    by (simp add: prod_eq_iff)
  from invoke_loop_final_message [OF this] show ?thesis by blast
next
  assume b: "fst (invoke_loop env a p i s) = BUDGET_EXHAUSTED ou"
  then have "strict_final_answer (final_answer ou)"
    by (intro fallback_answer_strict [of "output_parser a"] invoke_loop_exhausted_answer)
  moreover from invoke_loop_output [of env a p i s ou] b have "output_prompt ou = p" by simp
  ultimately have "new_AgentOutput env p (final_answer ou) (output_chain_of_thought ou) = Inr ou"
    by (cases ou) (simp add: new_AgentOutput_def)
  then show ?thesis by blast
qed

end
